theory Spec2Isabelle
  imports Complex_Main
begin

section \<open>Floating-point values and series\<close>

text \<open>
  The program computes on pandas series of \<^verbatim>\<open>float64\<close>. A float is modelled as a real
  number or the missing value: \<open>None\<close> is \<^verbatim>\<open>NaN\<close>. Rounding, overflow, signed zeros and the
  infinities are outside the model. A series is the list of its values in index order.
\<close>

type_synonym fl = "real option"

datatype error =
    TickersNotFound      \<comment> \<open>\<^verbatim>\<open>Tickers not found in data\<close>\<close>
  | InvalidPriceRatio    \<comment> \<open>\<^verbatim>\<open>Invalid price ratio detected\<close>\<close>
  | EmptyReturnSeries    \<comment> \<open>\<^verbatim>\<open>No valid returns generated\<close>\<close>
  | ZeroHorizon          \<comment> \<open>\<^verbatim>\<open>Insufficient data for annualization\<close>\<close>
  | BacktestError        \<comment> \<open>\<^verbatim>\<open>Backtest error: ...\<close>, an exception caught at the end of the function\<close>

section \<open>The position state machine: \<^verbatim>\<open>generate_signals_safe\<close>\<close>

text \<open>
  The loop of \<^verbatim>\<open>generate_signals_safe\<close> carries the Python integer \<^verbatim>\<open>position\<close> and
  writes one signal per z-score. The first argument after the thresholds is the carried
  position; the function returns the signals written for the remaining z-scores.
\<close>

fun signals_loop :: "real \<Rightarrow> real \<Rightarrow> int \<Rightarrow> fl list \<Rightarrow> int list" where
  "signals_loop entry_threshold exit_threshold position [] = []"
| "signals_loop entry_threshold exit_threshold position (None # zs) =
     0 # signals_loop entry_threshold exit_threshold position zs"
| "signals_loop entry_threshold exit_threshold position (Some z # zs) =
     (if position = 0 then
        (let position' = (if z > entry_threshold then - 1
                          else if z < - entry_threshold then 1
                          else position)
         in position' # signals_loop entry_threshold exit_threshold position' zs)
      else
        (let position' = (if \<bar>z\<bar> < exit_threshold then 0 else position)
         in position' # signals_loop entry_threshold exit_threshold position' zs))"

definition generate_signals_safe :: "fl list \<Rightarrow> real \<Rightarrow> real \<Rightarrow> error + int list" where
  "generate_signals_safe zscore entry_threshold exit_threshold =
     Inr (signals_loop entry_threshold exit_threshold 0 zscore)"

subsection \<open>The scan as the specification words it\<close>

datatype PositionState = Flat | LongSpread | ShortSpread

text \<open>
  One step of the specified machine: from the carried state and the z-score of the
  timestamp, the pair of the state carried to the next timestamp and the state output.
\<close>

fun spec_step :: "real \<Rightarrow> real \<Rightarrow> PositionState \<Rightarrow> fl \<Rightarrow> PositionState \<times> PositionState" where
  "spec_step entry_threshold exit_threshold carried None = (carried, Flat)"
| "spec_step entry_threshold exit_threshold Flat (Some z) =
     (if z > entry_threshold then (ShortSpread, ShortSpread)
      else if z < - entry_threshold then (LongSpread, LongSpread)
      else (Flat, Flat))"
| "spec_step entry_threshold exit_threshold held (Some z) =
     (if \<bar>z\<bar> < exit_threshold then (Flat, Flat) else (held, held))"

fun spec_scan :: "real \<Rightarrow> real \<Rightarrow> PositionState \<Rightarrow> fl list \<Rightarrow> PositionState list" where
  "spec_scan entry_threshold exit_threshold carried [] = []"
| "spec_scan entry_threshold exit_threshold carried (z # zs) =
     (case spec_step entry_threshold exit_threshold carried z of
        (carried', out) \<Rightarrow> out # spec_scan entry_threshold exit_threshold carried' zs)"

fun signal_value :: "PositionState \<Rightarrow> int" where
  "signal_value Flat = 0"
| "signal_value LongSpread = 1"
| "signal_value ShortSpread = - 1"

section \<open>Arithmetic on floats and series\<close>

text \<open>
  Arithmetic propagates \<^verbatim>\<open>NaN\<close>. A quotient by zero is \<^verbatim>\<open>inf\<close>, \<^verbatim>\<open>-inf\<close> or \<^verbatim>\<open>NaN\<close> in the
  program; the model has no infinities and gives \<open>None\<close>. The only divisors that can be
  zero are prices (the rolling deviation has its zeros replaced before the division, the
  running maximum is at least 1, the benchmark variance is tested), so the theorems about
  prices assume them positive, as the price panel of the specification has them.
\<close>

fun fadd :: "fl \<Rightarrow> fl \<Rightarrow> fl" where
  "fadd (Some a) (Some b) = Some (a + b)"
| "fadd _ _ = None"

fun fsub :: "fl \<Rightarrow> fl \<Rightarrow> fl" where
  "fsub (Some a) (Some b) = Some (a - b)"
| "fsub _ _ = None"

fun fmul :: "fl \<Rightarrow> fl \<Rightarrow> fl" where
  "fmul (Some a) (Some b) = Some (a * b)"
| "fmul _ _ = None"

fun fdiv :: "fl \<Rightarrow> fl \<Rightarrow> fl" where
  "fdiv (Some a) (Some b) = (if b = 0 then None else Some (a / b))"
| "fdiv _ _ = None"

fun fabs :: "fl \<Rightarrow> fl" where
  "fabs (Some a) = Some \<bar>a\<bar>"
| "fabs None = None"

text \<open>\<^verbatim>\<open>dropna\<close> on the values of a series.\<close>

fun dropna :: "fl list \<Rightarrow> real list" where
  "dropna [] = []"
| "dropna (None # xs) = dropna xs"
| "dropna (Some v # xs) = v # dropna xs"

text \<open>
  \<^verbatim>\<open>dropna\<close> on a series with its index: the labels and values of the entries that are
  not missing.
\<close>

type_synonym labelled = "(nat \<times> real) list"

fun dropna_at :: "nat list \<Rightarrow> fl list \<Rightarrow> labelled" where
  "dropna_at (d # ds) (Some v # xs) = (d, v) # dropna_at ds xs"
| "dropna_at (d # ds) (None # xs) = dropna_at ds xs"
| "dropna_at _ _ = []"

text \<open>\<^verbatim>\<open>shift(1)\<close>: every value moves one row down, the first row is missing.\<close>

definition shift1 :: "fl list \<Rightarrow> fl list" where
  "shift1 xs = (if xs = [] then [] else None # butlast xs)"

text \<open>
  \<^verbatim>\<open>pct_change()\<close> of a price column, \<^verbatim>\<open>data / data.shift(1) - 1\<close>. The columns of the
  price panel have no missing value (\<^verbatim>\<open>fetch_data_safe\<close> drops the rows that have one).
\<close>

definition pct_change :: "real list \<Rightarrow> fl list" where
  "pct_change col =
     map2 (\<lambda>x prev. fsub (fdiv x prev) (Some 1)) (map Some col) (shift1 (map Some col))"

text \<open>\<^verbatim>\<open>diff()\<close>: the value minus the value one row above.\<close>

definition diff :: "fl list \<Rightarrow> fl list" where
  "diff xs = map2 fsub xs (shift1 xs)"

text \<open>
  \<^verbatim>\<open>sum(axis=1)\<close> of a two-column frame. The sum skips missing values, and the sum of a
  row that has only missing values is 0.
\<close>

definition nansum :: "fl list \<Rightarrow> fl" where
  "nansum xs = Some (sum_list (dropna xs))"

definition sum_axis1 :: "fl list \<Rightarrow> fl list \<Rightarrow> fl list" where
  "sum_axis1 col1 col2 = map2 (\<lambda>a b. nansum [a, b]) col1 col2"

text \<open>\<^verbatim>\<open>cumprod()\<close>: a missing value stays missing and the product goes on after it.\<close>

fun cumprod_from :: "real \<Rightarrow> fl list \<Rightarrow> fl list" where
  "cumprod_from acc [] = []"
| "cumprod_from acc (None # xs) = None # cumprod_from acc xs"
| "cumprod_from acc (Some x # xs) = Some (acc * x) # cumprod_from (acc * x) xs"

definition cumprod :: "fl list \<Rightarrow> fl list" where
  "cumprod xs = cumprod_from 1 xs"

text \<open>
  \<^verbatim>\<open>expanding().max()\<close>: the maximum of the values seen so far that are not missing,
  missing while there is none.
\<close>

fun fmax :: "fl \<Rightarrow> fl \<Rightarrow> fl" where
  "fmax None x = x"
| "fmax (Some m) None = Some m"
| "fmax (Some m) (Some x) = Some (max m x)"

fun expanding_max_from :: "fl \<Rightarrow> fl list \<Rightarrow> fl list" where
  "expanding_max_from m [] = []"
| "expanding_max_from m (x # xs) = fmax m x # expanding_max_from (fmax m x) xs"

definition expanding_max :: "fl list \<Rightarrow> fl list" where
  "expanding_max xs = expanding_max_from None xs"

section \<open>The signal engine: \<^verbatim>\<open>calculate_zscore_safe\<close>\<close>

text \<open>
  A price panel is a data frame: the index (timestamps, as numbers) and the columns by
  ticker. Every column has one price per timestamp.
\<close>

record panel =
  index :: "nat list"
  columns :: "string \<rightharpoonup> real list"

text \<open>
  \<^verbatim>\<open>rolling(window=window, min_periods=window)\<close>: the window at row \<open>i\<close> holds the last
  \<open>window\<close> rows up to \<open>i\<close>, fewer at the start, and the statistic is missing when the
  window has fewer than \<open>window\<close> values that are not missing. The standard deviation is
  the sample one (one degree of freedom less), missing on fewer than two values.
\<close>

definition window_at :: "nat \<Rightarrow> fl list \<Rightarrow> nat \<Rightarrow> fl list" where
  "window_at window xs i = drop (Suc i - window) (take (Suc i) xs)"

definition series_mean :: "real list \<Rightarrow> real" where
  "series_mean obs = sum_list obs / real (length obs)"

definition sample_std :: "real list \<Rightarrow> real" where
  "sample_std obs =
     sqrt (sum_list (map (\<lambda>x. (x - series_mean obs)\<^sup>2) obs) / real (length obs - 1))"

definition rolling_mean :: "nat \<Rightarrow> fl list \<Rightarrow> fl list" where
  "rolling_mean window xs =
     map (\<lambda>i. let obs = dropna (window_at window xs i)
              in if length obs < window \<or> obs = [] then None else Some (series_mean obs))
         [0..<length xs]"

definition rolling_std :: "nat \<Rightarrow> fl list \<Rightarrow> fl list" where
  "rolling_std window xs =
     map (\<lambda>i. let obs = dropna (window_at window xs i)
              in if length obs < window \<or> length obs < 2 then None else Some (sample_std obs))
         [0..<length xs]"

definition calculate_zscore_safe :: "panel \<Rightarrow> string \<Rightarrow> string \<Rightarrow> nat \<Rightarrow> error + fl list" where
  "calculate_zscore_safe prices ticker1 ticker2 window =
     (case (columns prices ticker1, columns prices ticker2) of
        (Some col1, Some col2) \<Rightarrow>
          (let ratio = map2 fdiv (map Some col1) (map Some col2)
           in if list_ex (\<lambda>r. r = Some 0) ratio \<or> list_all (\<lambda>r. r = None) ratio
              then Inl InvalidPriceRatio
              else
                (let rolling_mean = rolling_mean window ratio;
                     rolling_std = rolling_std window ratio;
                     rolling_std = map (\<lambda>s. if s = Some 0 then None else s) rolling_std;
                     zscore = map2 (\<lambda>(r, m) s. fdiv (fsub r m) s) (zip ratio rolling_mean) rolling_std
                 in Inr zscore))
      | _ \<Rightarrow> Inl TickersNotFound)"

section \<open>The accountant: \<^verbatim>\<open>run_backtest_safe\<close>\<close>

text \<open>
  The position frame has the two columns that \<^verbatim>\<open>main\<close> builds, the weights on
  \<^verbatim>\<open>ticker1\<close> and on \<^verbatim>\<open>ticker2\<close>, on the index of the price panel. \<^verbatim>\<open>main\<close> builds it
  only for two different tickers.
\<close>

record position_frame =
  pos1 :: "fl list"
  pos2 :: "fl list"

definition make_positions :: "int list \<Rightarrow> position_frame" where
  "make_positions signals =
     \<lparr>pos1 = map (\<lambda>s. Some (of_int s * 0.5)) signals,
      pos2 = map (\<lambda>s. Some (- of_int s * 0.5)) signals\<rparr>"

text \<open>
  The local series of \<^verbatim>\<open>run_backtest_safe\<close>, each under its name in the source, as
  functions of the two price columns, the position frame and the cost in basis points.
\<close>

definition strategy_returns :: "real list \<Rightarrow> real list \<Rightarrow> position_frame \<Rightarrow> fl list" where
  "strategy_returns col1 col2 positions =
     sum_axis1 (map2 fmul (shift1 (pos1 positions)) (pct_change col1))
               (map2 fmul (shift1 (pos2 positions)) (pct_change col2))"

definition turnover :: "position_frame \<Rightarrow> fl list" where
  "turnover positions =
     sum_axis1 (map fabs (diff (pos1 positions))) (map fabs (diff (pos2 positions)))"

definition transaction_costs :: "position_frame \<Rightarrow> real \<Rightarrow> fl list" where
  "transaction_costs positions tc_bps =
     (let tc_cost = tc_bps / 10000 in map (\<lambda>u. fmul u (Some tc_cost)) (turnover positions))"

definition net_returns :: "real list \<Rightarrow> real list \<Rightarrow> position_frame \<Rightarrow> real \<Rightarrow> fl list" where
  "net_returns col1 col2 positions tc_bps =
     map2 fsub (strategy_returns col1 col2 positions) (transaction_costs positions tc_bps)"

definition equity_curve :: "real list \<Rightarrow> real list \<Rightarrow> position_frame \<Rightarrow> real \<Rightarrow> fl list" where
  "equity_curve col1 col2 positions tc_bps =
     cumprod (map (fadd (Some 1)) (net_returns col1 col2 positions tc_bps))"

definition gross_exposure :: "position_frame \<Rightarrow> fl list" where
  "gross_exposure positions = sum_axis1 (map fabs (pos1 positions)) (map fabs (pos2 positions))"

definition net_exposure :: "position_frame \<Rightarrow> fl list" where
  "net_exposure positions = sum_axis1 (pos1 positions) (pos2 positions)"

definition drawdown :: "fl list \<Rightarrow> fl list" where
  "drawdown equity =
     (let running_max = expanding_max equity
      in map2 (\<lambda>e m. fmul (fdiv (fsub e m) m) (Some 100)) equity running_max)"

subsection \<open>Beta and correlation against the benchmark\<close>

text \<open>
  Sample covariance and variance (one degree of freedom less) and the Pearson
  correlation of two aligned series; the correlation is missing when a deviation is 0.
  The program calls them on more than 20 observations only.
\<close>

definition series_cov :: "real list \<Rightarrow> real list \<Rightarrow> real" where
  "series_cov xs ys =
     sum_list (map2 (\<lambda>x y. (x - series_mean xs) * (y - series_mean ys)) xs ys)
       / real (length xs - 1)"

definition series_var :: "real list \<Rightarrow> real" where
  "series_var xs = series_cov xs xs"

definition series_corr :: "real list \<Rightarrow> real list \<Rightarrow> fl" where
  "series_corr xs ys =
     (if series_var xs = 0 \<or> series_var ys = 0 then None
      else Some (series_cov xs ys / (sqrt (series_var xs) * sqrt (series_var ys))))"

text \<open>\<^verbatim>\<open>index.intersection\<close> and \<^verbatim>\<open>.loc\<close> on it.\<close>

definition common_dates :: "labelled \<Rightarrow> labelled \<Rightarrow> nat list" where
  "common_dates returns_clean bench = filter (\<lambda>d. d \<in> set (map fst bench)) (map fst returns_clean)"

definition loc :: "labelled \<Rightarrow> nat list \<Rightarrow> real list" where
  "loc series dates = List.map_filter (map_of series) dates"

text \<open>
  The block that computes \<^verbatim>\<open>beta\<close> and \<^verbatim>\<open>correlation\<close>: both start at 0 and are assigned
  only when there are more than 20 common dates, \<^verbatim>\<open>beta\<close> only when the variance of the
  benchmark is positive. The result is the pair of them.
\<close>

definition market_beta :: "labelled \<Rightarrow> labelled option \<Rightarrow> real \<times> fl" where
  "market_beta returns_clean benchmark_returns =
     (case benchmark_returns of
        None \<Rightarrow> (0, Some 0)
      | Some bench \<Rightarrow>
          (let common = common_dates returns_clean bench
           in if length common > 20 then
                (let returns_aligned = loc returns_clean common;
                     benchmark_aligned = loc bench common;
                     correlation = series_corr returns_aligned benchmark_aligned;
                     covariance = series_cov returns_aligned benchmark_aligned;
                     market_variance = series_var benchmark_aligned
                 in (if market_variance > 0 then covariance / market_variance else 0, correlation))
              else (0, Some 0)))"

text \<open>
  The benchmark returns: from the column of the panel when the benchmark is one, else
  from the adjusted closes that the download gives. The download is input of the model:
  \<open>None\<close> when it gives no data or fails, else the series with its dates.
\<close>

definition benchmark_returns :: "panel \<Rightarrow> string \<Rightarrow> labelled option \<Rightarrow> labelled option" where
  "benchmark_returns prices benchmark downloaded =
     (case columns prices benchmark of
        Some col \<Rightarrow> Some (dropna_at (index prices) (pct_change col))
      | None \<Rightarrow>
          (case downloaded of
             None \<Rightarrow> None
           | Some adj_close \<Rightarrow>
               if adj_close = [] then None
               else Some (dropna_at (map fst adj_close) (pct_change (map snd adj_close)))))"

text \<open>
  The result of a backtest: the series of the result dictionary and, of its metrics, the
  number of trading days, beta and correlation (the latter two before they are rounded
  for display). The other metrics are computed from these series by float arithmetic
  that raises nothing and decides no branch; they are not modelled.
\<close>

record backtest_result =
  returns_out :: "fl list"
  equity_curve_out :: "fl list"
  drawdown_out :: "fl list"
  gross_exposure_out :: "fl list"
  net_exposure_out :: "fl list"
  turnover_out :: "fl list"
  trading_days_out :: nat
  beta_out :: real
  correlation_out :: fl

text \<open>
  A ticker that is not a column of the panel raises \<^verbatim>\<open>KeyError\<close> at
  \<^verbatim>\<open>prices[[ticker1, ticker2]]\<close>, which the function catches and returns as its
  \<^verbatim>\<open>Backtest error\<close>.
\<close>

definition run_backtest_safe ::
  "panel \<Rightarrow> position_frame \<Rightarrow> string \<Rightarrow> string \<Rightarrow> real \<Rightarrow> string \<Rightarrow> labelled option
     \<Rightarrow> error + backtest_result" where
  "run_backtest_safe prices positions ticker1 ticker2 tc_bps benchmark downloaded =
     (case (columns prices ticker1, columns prices ticker2) of
        (Some col1, Some col2) \<Rightarrow>
          (let net = net_returns col1 col2 positions tc_bps;
               equity = equity_curve col1 col2 positions tc_bps;
               returns_clean = dropna_at (index prices) net
           in if length returns_clean = 0 then Inl EmptyReturnSeries
              else
                (let trading_days = length returns_clean;
                     years = real trading_days / 252
                 in if years = 0 then Inl ZeroHorizon
                    else
                      (case market_beta returns_clean
                              (benchmark_returns prices benchmark downloaded) of
                         (beta, correlation) \<Rightarrow>
                           Inr \<lparr>returns_out = net,
                                equity_curve_out = equity,
                                drawdown_out = drawdown equity,
                                gross_exposure_out = gross_exposure positions,
                                net_exposure_out = net_exposure positions,
                                turnover_out = turnover positions,
                                trading_days_out = trading_days,
                                beta_out = beta,
                                correlation_out = correlation\<rparr>)))
      | _ \<Rightarrow> Inl BacktestError)"

section \<open>Inputs of the backtest and notions of the proofs\<close>

text \<open>
  The theorems about the backtest are about the inputs that \<^verbatim>\<open>main\<close> passes: the two
  tickers differ and are columns of the panel, the timestamps of the index are distinct,
  every column has one price per timestamp, the prices are positive, and the two columns
  of the position frame are on the index of the panel.
\<close>

definition panel_ok :: "panel \<Rightarrow> string \<Rightarrow> string \<Rightarrow> bool" where
  "panel_ok prices ticker1 ticker2 =
     (case (columns prices ticker1, columns prices ticker2) of
        (Some col1, Some col2) \<Rightarrow>
          ticker1 \<noteq> ticker2 \<and> distinct (index prices) \<and>
          length col1 = length (index prices) \<and> length col2 = length (index prices) \<and>
          list_all (\<lambda>p. 0 < p) col1 \<and> list_all (\<lambda>p. 0 < p) col2
      | _ \<Rightarrow> False)"

definition well_formed :: "panel \<Rightarrow> position_frame \<Rightarrow> string \<Rightarrow> string \<Rightarrow> bool" where
  "well_formed prices positions ticker1 ticker2 =
     (panel_ok prices ticker1 ticker2 \<and>
      length (pos1 positions) = length (index prices) \<and>
      length (pos2 positions) = length (index prices))"

text \<open>
  The value of a float with 0 for the missing value, which is what a sum that skips
  missing values adds; the running products and running maxima of a list of reals; and
  the values of the series of the backtest that have no missing entry. They state the
  facts below and are no part of the model of the program.
\<close>

fun fval :: "fl \<Rightarrow> real" where
  "fval None = 0"
| "fval (Some v) = v"

fun running_products :: "real \<Rightarrow> real list \<Rightarrow> real list" where
  "running_products acc [] = []"
| "running_products acc (x # xs) = (acc * x) # running_products (acc * x) xs"

fun running_maxes :: "real \<Rightarrow> real list \<Rightarrow> real list" where
  "running_maxes m [] = []"
| "running_maxes m (x # xs) = max m x # running_maxes (max m x) xs"

definition strategy_values :: "real list \<Rightarrow> real list \<Rightarrow> position_frame \<Rightarrow> real list" where
  "strategy_values col1 col2 positions = map fval (strategy_returns col1 col2 positions)"

definition turnover_values :: "position_frame \<Rightarrow> real list" where
  "turnover_values positions = map fval (turnover positions)"

definition growth_factors :: "real list \<Rightarrow> real list \<Rightarrow> position_frame \<Rightarrow> real \<Rightarrow> real list" where
  "growth_factors col1 col2 positions tc_bps =
     map2 (\<lambda>s u. 1 + (s - u * (tc_bps / 10000)))
       (strategy_values col1 col2 positions) (turnover_values positions)"

section \<open>Properties of the state machine\<close>

lemma signals_loop_spec_scan:
  "signals_loop e x (signal_value c) zs = map signal_value (spec_scan e x c zs)"
proof (induction zs arbitrary: c)
  case Nil
  show ?case by simp
next
  case (Cons z zs)
  show ?case
  proof (cases z)
    case None
    then show ?thesis using Cons.IH [of c] by simp
  next
    case (Some v)
    show ?thesis
    proof (cases c)
      case Flat
      then show ?thesis
        using Some Cons.IH [of ShortSpread] Cons.IH [of LongSpread] Cons.IH [of Flat]
        by simp
    next
      case LongSpread
      then show ?thesis
        using Some Cons.IH [of LongSpread] Cons.IH [of Flat] by simp
    next
      case ShortSpread
      then show ?thesis
        using Some Cons.IH [of ShortSpread] Cons.IH [of Flat] by simp
    qed
  qed
qed

lemma signals_loop_length [simp]: "length (signals_loop e x p zs) = length zs"
  by (induction e x p zs rule: signals_loop.induct) (simp_all add: Let_def)

lemma signals_loop_head:
  "p \<noteq> 0 \<Longrightarrow> zs \<noteq> [] \<Longrightarrow> signals_loop e x p zs ! 0 = p \<or> signals_loop e x p zs ! 0 = 0"
  by (cases zs; cases "hd zs") (auto simp: Let_def)

text \<open>
  A signal that is not 0 is the position carried to the next timestamp, so the signal
  after it is that position again or 0.
\<close>

lemma signals_loop_no_flip:
  "Suc i < length zs \<Longrightarrow>
     signals_loop e x p zs ! i = 0 \<or> signals_loop e x p zs ! Suc i = 0 \<or>
     signals_loop e x p zs ! Suc i = signals_loop e x p zs ! i"
proof (induction e x p zs arbitrary: i rule: signals_loop.induct)
  case (1 e x p)
  then show ?case by simp
next
  case (2 e x p zs)
  then show ?case by (cases i) simp_all
next
  case (3 e x p z zs)
  define p' where "p' = (if p = 0 then (if z > e then - 1 else if z < - e then 1 else p)
                         else (if \<bar>z\<bar> < x then 0 else p))"
  have unfold: "signals_loop e x p (Some z # zs) = p' # signals_loop e x p' zs"
    by (simp add: p'_def Let_def)
  show ?case
  proof (cases i)
    case 0
    have ne: "zs \<noteq> []" using "3.prems" 0 by auto
    show ?thesis
    proof (cases "p' = 0")
      case True
      then show ?thesis using 0 unfold by simp
    next
      case False
      from signals_loop_head [OF False ne, of e x]
      have "signals_loop e x p' zs ! 0 = p' \<or> signals_loop e x p' zs ! 0 = 0" .
      then show ?thesis using 0 unfold by auto
    qed
  next
    case (Suc j)
    have len: "Suc j < length zs" using "3.prems" Suc by simp
    have "signals_loop e x p' zs ! j = 0 \<or> signals_loop e x p' zs ! Suc j = 0 \<or>
          signals_loop e x p' zs ! Suc j = signals_loop e x p' zs ! j"
    proof (cases "p = 0")
      case True
      then show ?thesis using "3.IH"(1) [OF True _ len] by (simp add: p'_def)
    next
      case False
      then show ?thesis using "3.IH"(2) [OF False _ len] by (simp add: p'_def)
    qed
    then show ?thesis using Suc unfold by simp
  qed
qed

text \<open>
  Claim C1, as the code has it. On the z-scores 0, 2.0, 0.3, 0.0 with entry threshold 1.5
  and exit threshold 0.5, \<^verbatim>\<open>generate_signals_safe\<close> yields the signals 0, -1, 0, 0
  (Flat, ShortSpread, Flat, Flat): it enters on the breach at the second entry and exits at
  the third entry, the first one with \<open>|z| < exit_threshold\<close>, since \<open>|0.3| < 0.5\<close>.
\<close>

theorem tie_break_example:
  "generate_signals_safe [Some 0, Some 2, Some 0.3, Some 0] 1.5 0.5 = Inr [0, - 1, 0, 0]"
  by (simp add: generate_signals_safe_def)

text \<open>
  The position sequence that claim C1 states, Flat, ShortSpread, ShortSpread, Flat
  (signals 0, -1, -1, 0), is not the output of \<^verbatim>\<open>generate_signals_safe\<close> on that input.
\<close>

theorem tie_break_example_as_stated_fails:
  "generate_signals_safe [Some 0, Some 2, Some 0.3, Some 0] 1.5 0.5
     \<noteq> Inr (map signal_value [Flat, ShortSpread, ShortSpread, Flat])"
  by (simp add: generate_signals_safe_def)

text \<open>
  Claim C2. For thresholds with \<open>0 < entry_threshold\<close> and
  \<open>0 \<le> exit_threshold < entry_threshold\<close>, the output of \<^verbatim>\<open>generate_signals_safe\<close> is the
  left-to-right scan of the specification started in Flat: a missing z-score outputs Flat
  and leaves the carried state; Flat enters ShortSpread above the entry threshold and
  LongSpread below its negation; an open position goes to Flat when \<open>|z| < exit_threshold\<close>
  and is held otherwise. Two consecutive outputs are never LongSpread and ShortSpread in
  either order.
\<close>

theorem generate_signals_safe_is_spec_scan:
  assumes "0 < entry_threshold" and "0 \<le> exit_threshold" and "exit_threshold < entry_threshold"
  shows "generate_signals_safe zscore entry_threshold exit_threshold =
           Inr (map signal_value (spec_scan entry_threshold exit_threshold Flat zscore))
         \<and> (\<forall>i. Suc i < length zscore \<longrightarrow>
              \<not> (spec_scan entry_threshold exit_threshold Flat zscore ! i = LongSpread \<and>
                 spec_scan entry_threshold exit_threshold Flat zscore ! Suc i = ShortSpread) \<and>
              \<not> (spec_scan entry_threshold exit_threshold Flat zscore ! i = ShortSpread \<and>
                 spec_scan entry_threshold exit_threshold Flat zscore ! Suc i = LongSpread))"
proof -
  let ?out = "spec_scan entry_threshold exit_threshold Flat zscore"
  let ?sig = "signals_loop entry_threshold exit_threshold 0 zscore"
  have eq: "?sig = map signal_value ?out"
    using signals_loop_spec_scan [of entry_threshold exit_threshold Flat zscore] by simp
  have len: "length ?out = length zscore"
    using arg_cong [OF eq, of length] by simp
  have "\<not> (?out ! i = LongSpread \<and> ?out ! Suc i = ShortSpread) \<and>
        \<not> (?out ! i = ShortSpread \<and> ?out ! Suc i = LongSpread)"
    if i: "Suc i < length zscore" for i
  proof -
    have a: "?sig ! i = signal_value (?out ! i)" and b: "?sig ! Suc i = signal_value (?out ! Suc i)"
      using i len by (simp_all add: eq)
    from signals_loop_no_flip [OF i, of entry_threshold exit_threshold 0]
    show ?thesis unfolding a b by auto
  qed
  then show ?thesis by (simp add: generate_signals_safe_def eq)
qed

theorem generate_signals_safe_is_spec_scan_witness:
  "(0::real) < 1.5 \<and> (0::real) \<le> 0.5 \<and> (0.5::real) < 1.5 \<and>
   generate_signals_safe [None, Some (- 2), Some 1, Some 0.2, Some 3] 1.5 0.5 =
     Inr (map signal_value [Flat, LongSpread, LongSpread, Flat, ShortSpread])"
  using generate_signals_safe_is_spec_scan [of "1.5" "0.5" "[None, Some (- 2), Some 1, Some 0.2, Some 3]"]
  by simp

section \<open>Facts about series\<close>

lemma length_shift1 [simp]: "length (shift1 xs) = length xs"
  by (simp add: shift1_def)

lemma shift1_nth: "i < length xs \<Longrightarrow> shift1 xs ! i = (if i = 0 then None else xs ! (i - 1))"
  by (cases i) (auto simp: shift1_def nth_butlast)

lemma length_pct_change [simp]: "length (pct_change col) = length col"
  by (simp add: pct_change_def)

lemma pct_change_nth:
  "i < length col \<Longrightarrow>
   pct_change col ! i =
     (if i = 0 then None else fsub (fdiv (Some (col ! i)) (Some (col ! (i - 1)))) (Some 1))"
  by (simp add: pct_change_def shift1_nth)

lemma length_diff [simp]: "length (diff xs) = length xs"
  by (simp add: diff_def)

lemma diff_nth:
  "i < length xs \<Longrightarrow> diff xs ! i = (if i = 0 then None else fsub (xs ! i) (xs ! (i - 1)))"
  by (simp add: diff_def shift1_nth)

lemma length_sum_axis1 [simp]: "length (sum_axis1 a b) = min (length a) (length b)"
  by (simp add: sum_axis1_def)

lemma nansum_pair: "nansum [a, b] = Some (fval a + fval b)"
  by (cases a; cases b) (simp_all add: nansum_def)

lemma sum_axis1_nth:
  "i < length a \<Longrightarrow> i < length b \<Longrightarrow> sum_axis1 a b ! i = Some (fval (a ! i) + fval (b ! i))"
  by (simp add: sum_axis1_def nansum_pair)

lemma sum_axis1_some: "sum_axis1 a b = map Some (map fval (sum_axis1 a b))"
  by (auto simp: sum_axis1_def nansum_pair)

lemma map2_fsub_some: "map2 fsub (map Some xs) (map Some ys) = map Some (map2 (-) xs ys)"
  by (auto simp: zip_map_map)

lemma cumprod_from_some: "cumprod_from acc (map Some xs) = map Some (running_products acc xs)"
  by (induction xs arbitrary: acc) simp_all

lemma length_running_products [simp]: "length (running_products acc xs) = length xs"
  by (induction xs arbitrary: acc) simp_all

lemma running_products_Nil [simp]: "running_products acc xs = [] \<longleftrightarrow> xs = []"
  by (cases xs) simp_all

lemma last_running_products: "xs \<noteq> [] \<Longrightarrow> last (running_products acc xs) = acc * prod_list xs"
proof (induction xs arbitrary: acc)
  case Nil
  then show ?case by simp
next
  case (Cons x xs)
  show ?case
  proof (cases "xs = []")
    case True
    then show ?thesis by simp
  next
    case False
    from Cons.IH [OF False, of "acc * x"] False show ?thesis by (simp add: mult.assoc)
  qed
qed

lemma expanding_max_from_some:
  "expanding_max_from (Some m) (map Some xs) = map Some (running_maxes m xs)"
  by (induction xs arbitrary: m) simp_all

lemma length_running_maxes [simp]: "length (running_maxes m xs) = length xs"
  by (induction xs arbitrary: m) simp_all

lemma running_maxes_bounds:
  "i < length xs \<Longrightarrow> m \<le> running_maxes m xs ! i \<and> xs ! i \<le> running_maxes m xs ! i"
proof (induction xs arbitrary: m i)
  case Nil
  then show ?case by simp
next
  case (Cons x xs)
  show ?case
  proof (cases i)
    case 0
    then show ?thesis by simp
  next
    case (Suc j)
    then have "j < length xs" using Cons.prems by simp
    from Cons.IH [OF this, of "max m x"] show ?thesis using Suc by simp
  qed
qed

lemma dropna_at_some: "length ds = length vs \<Longrightarrow> dropna_at ds (map Some vs) = zip ds vs"
  by (induction ds vs rule: list_induct2) simp_all

lemma strategy_returns_some:
  "strategy_returns col1 col2 positions = map Some (strategy_values col1 col2 positions)"
  unfolding strategy_values_def strategy_returns_def by (rule sum_axis1_some)

lemma turnover_some: "turnover positions = map Some (turnover_values positions)"
  unfolding turnover_values_def turnover_def by (rule sum_axis1_some)

lemma fval_fabs_nonneg: "0 \<le> fval (fabs x)"
  by (cases x) simp_all

lemma turnover_values_nonneg:
  assumes "u \<in> set (turnover_values positions)"
  shows "0 \<le> u"
proof -
  from assms obtain a b where "u = fval (fabs a) + fval (fabs b)"
    by (auto simp: turnover_values_def turnover_def sum_axis1_def nansum_pair zip_map_map)
  then show ?thesis by (simp add: fval_fabs_nonneg)
qed

lemma transaction_costs_some:
  "transaction_costs positions tc_bps =
     map Some (map (\<lambda>u. u * (tc_bps / 10000)) (turnover_values positions))"
  by (simp add: transaction_costs_def turnover_some)

lemma net_returns_some:
  "net_returns col1 col2 positions tc_bps =
     map Some (map2 (\<lambda>s u. s - u * (tc_bps / 10000))
                 (strategy_values col1 col2 positions) (turnover_values positions))"
  by (auto simp: net_returns_def strategy_returns_some transaction_costs_some zip_map_map)

lemma equity_curve_some:
  "equity_curve col1 col2 positions tc_bps =
     map Some (running_products 1 (growth_factors col1 col2 positions tc_bps))"
  by (simp add: equity_curve_def cumprod_def net_returns_some growth_factors_def
       cumprod_from_some [symmetric] comp_def split_def)

lemma length_strategy_values:
  "length (strategy_values col1 col2 positions) =
     min (min (length (pos1 positions)) (length col1)) (min (length (pos2 positions)) (length col2))"
  by (simp add: strategy_values_def strategy_returns_def)

lemma length_turnover_values:
  "length (turnover_values positions) = min (length (pos1 positions)) (length (pos2 positions))"
  by (simp add: turnover_values_def turnover_def)

lemma strategy_values_0:
  "0 < length (strategy_values col1 col2 positions) \<Longrightarrow> strategy_values col1 col2 positions ! 0 = 0"
  by (simp add: strategy_values_def strategy_returns_def sum_axis1_nth shift1_nth)

lemma turnover_values_0:
  "0 < length (turnover_values positions) \<Longrightarrow> turnover_values positions ! 0 = 0"
  by (simp add: turnover_values_def turnover_def sum_axis1_nth diff_nth)

lemma well_formedD:
  assumes "well_formed prices positions ticker1 ticker2"
  obtains col1 col2 where
    "columns prices ticker1 = Some col1" "columns prices ticker2 = Some col2"
    "length col1 = length (index prices)" "length col2 = length (index prices)"
    "length (pos1 positions) = length (index prices)"
    "length (pos2 positions) = length (index prices)"
    "list_all (\<lambda>p. 0 < p) col1" "list_all (\<lambda>p. 0 < p) col2"
  using assms by (auto simp: well_formed_def panel_ok_def split: option.splits)

lemma length_growth_factors:
  assumes "length col1 = n" "length col2 = n" "length (pos1 positions) = n" "length (pos2 positions) = n"
  shows "length (growth_factors col1 col2 positions tc_bps) = n"
  using assms by (simp add: growth_factors_def length_strategy_values length_turnover_values)

lemma growth_factors_0:
  assumes "0 < length (growth_factors col1 col2 positions tc_bps)"
  shows "growth_factors col1 col2 positions tc_bps ! 0 = 1"
proof -
  have "0 < length (strategy_values col1 col2 positions)" "0 < length (turnover_values positions)"
    using assms by (simp_all add: growth_factors_def)
  then show ?thesis
    by (simp add: growth_factors_def strategy_values_0 turnover_values_0)
qed

lemma net_returns_growth:
  "net_returns col1 col2 positions tc_bps =
     map Some (map (\<lambda>g. g - 1) (growth_factors col1 col2 positions tc_bps))"
  by (simp add: net_returns_some growth_factors_def split_def)

lemma run_backtest_safe_result:
  assumes "columns prices ticker1 = Some col1" "columns prices ticker2 = Some col2"
    and "length col1 = length (index prices)" "length col2 = length (index prices)"
    and "length (pos1 positions) = length (index prices)"
    and "length (pos2 positions) = length (index prices)"
  shows "run_backtest_safe prices positions ticker1 ticker2 tc_bps benchmark downloaded =
     (if index prices = [] then Inl EmptyReturnSeries
      else Inr \<lparr>returns_out = net_returns col1 col2 positions tc_bps,
                equity_curve_out = equity_curve col1 col2 positions tc_bps,
                drawdown_out = drawdown (equity_curve col1 col2 positions tc_bps),
                gross_exposure_out = gross_exposure positions,
                net_exposure_out = net_exposure positions,
                turnover_out = turnover positions,
                trading_days_out = length (index prices),
                beta_out = fst (market_beta
                   (dropna_at (index prices) (net_returns col1 col2 positions tc_bps))
                   (benchmark_returns prices benchmark downloaded)),
                correlation_out = snd (market_beta
                   (dropna_at (index prices) (net_returns col1 col2 positions tc_bps))
                   (benchmark_returns prices benchmark downloaded))\<rparr>)"
proof -
  let ?g = "growth_factors col1 col2 positions tc_bps"
  have len: "length ?g = length (index prices)"
    using assms by (simp add: length_growth_factors)
  have clean: "dropna_at (index prices) (net_returns col1 col2 positions tc_bps) =
               zip (index prices) (map (\<lambda>g. g - 1) ?g)"
    unfolding net_returns_growth by (rule dropna_at_some) (simp add: len)
  have n: "length (dropna_at (index prices) (net_returns col1 col2 positions tc_bps)) =
        length (index prices)"
    unfolding clean using len by simp
  then have e: "dropna_at (index prices) (net_returns col1 col2 positions tc_bps) = [] \<longleftrightarrow>
        index prices = []"
    by (metis length_0_conv)
  show ?thesis
    using assms(1,2) n e by (simp add: run_backtest_safe_def Let_def split_def)
qed

lemma hd_running_products: "xs \<noteq> [] \<Longrightarrow> running_products acc xs ! 0 = acc * xs ! 0"
  by (cases xs) simp_all

lemma equity_curve_0:
  assumes "0 < length (growth_factors col1 col2 positions tc_bps)"
  shows "equity_curve col1 col2 positions tc_bps ! 0 = Some 1"
  using assms growth_factors_0 [OF assms]
  by (simp add: equity_curve_some hd_running_products)

lemma expanding_max_some:
  "expanding_max (map Some (e # es)) = map Some (running_maxes e (e # es))"
  by (simp add: expanding_max_def expanding_max_from_some)

lemma drawdown_nonpositive:
  assumes "i < length es" and "es ! 0 = 1"
  shows "\<exists>d. drawdown (map Some es) ! i = Some d \<and> d \<le> 0"
proof -
  from assms obtain e rest where es: "es = e # rest" by (cases es) auto
  have e: "e = 1" using assms(2) es by simp
  let ?m = "running_maxes e es"
  have b: "e \<le> ?m ! i" "es ! i \<le> ?m ! i"
    using running_maxes_bounds [OF assms(1), of e] by simp_all
  have pos: "0 < ?m ! i" using b(1) e by simp
  have "drawdown (map Some es) ! i = Some ((es ! i - ?m ! i) / ?m ! i * 100)"
    using assms(1) pos unfolding es drawdown_def expanding_max_some Let_def
    by (simp add: es [symmetric])
  moreover have "(es ! i - ?m ! i) / ?m ! i * 100 \<le> 0"
    using b(2) pos by (simp add: divide_le_0_iff)
  ultimately show ?thesis by blast
qed

lemma length_drawdown_some [simp]: "length (drawdown (map Some es)) = length es"
  by (cases es) (simp_all add: drawdown_def expanding_max_def expanding_max_from_some Let_def)

section \<open>Drawdown\<close>

text \<open>
  Claim C7. For every input that \<^verbatim>\<open>run_backtest_safe\<close> accepts (a panel with positive
  prices and a position frame on its index, for which it returns a result), the drawdown
  series, (equity minus running maximum) divided by the running maximum, times 100, has
  one entry per row of the panel, and every entry is defined and at most 0.
\<close>

theorem drawdown_never_positive:
  assumes "well_formed prices positions ticker1 ticker2"
    and "run_backtest_safe prices positions ticker1 ticker2 tc_bps benchmark downloaded = Inr r"
  shows "length (drawdown_out r) = length (index prices) \<and>
         (\<forall>t < length (drawdown_out r). \<exists>d. drawdown_out r ! t = Some d \<and> d \<le> 0)"
proof -
  from assms(1) obtain col1 col2 where c:
    "columns prices ticker1 = Some col1" "columns prices ticker2 = Some col2"
    "length col1 = length (index prices)" "length col2 = length (index prices)"
    "length (pos1 positions) = length (index prices)"
    "length (pos2 positions) = length (index prices)"
    by (rule well_formedD)
  let ?g = "growth_factors col1 col2 positions tc_bps"
  let ?e = "running_products 1 ?g"
  have len: "length ?g = length (index prices)"
    using c by (simp add: length_growth_factors)
  have r: "drawdown_out r = drawdown (map Some ?e)"
    using assms(2) unfolding run_backtest_safe_result [OF c]
    by (auto simp: equity_curve_some split: if_splits)
  have l: "length (drawdown_out r) = length (index prices)"
    unfolding r using len by simp
  have "\<exists>d. drawdown_out r ! t = Some d \<and> d \<le> 0" if t: "t < length (drawdown_out r)" for t
  proof -
    have t': "t < length ?e" using t l len by simp
    then have g: "0 < length ?g" by auto
    then have "?g \<noteq> []" by auto
    then have "?e ! 0 = 1"
      using growth_factors_0 [OF g] by (simp add: hd_running_products)
    from drawdown_nonpositive [OF t' this] show ?thesis unfolding r .
  qed
  then show ?thesis using l by blast
qed

theorem drawdown_never_positive_witness:
  "well_formed \<lparr>index = [0, 1, 2], columns = [''A'' \<mapsto> [1, 1, 4], ''B'' \<mapsto> [1, 1, 1]]\<rparr>
     \<lparr>pos1 = [Some 0, Some (- 0.5), Some (- 0.5)], pos2 = [Some 0, Some 0.5, Some 0.5]\<rparr> ''A'' ''B''
   \<and> (\<exists>r. run_backtest_safe
            \<lparr>index = [0, 1, 2], columns = [''A'' \<mapsto> [1, 1, 4], ''B'' \<mapsto> [1, 1, 1]]\<rparr>
            \<lparr>pos1 = [Some 0, Some (- 0.5), Some (- 0.5)], pos2 = [Some 0, Some 0.5, Some 0.5]\<rparr>
            ''A'' ''B'' 10 ''SPY'' None = Inr r
          \<and> length (drawdown_out r) = 3
          \<and> (\<exists>d. drawdown_out r ! 2 = Some d \<and> d \<le> 0))"
proof -
  let ?P = "\<lparr>index = [0, 1, 2], columns = [''A'' \<mapsto> [1, 1, 4], ''B'' \<mapsto> [1::real, 1, 1]]\<rparr>"
  let ?W = "\<lparr>pos1 = [Some 0, Some (- 0.5), Some (- 0.5)], pos2 = [Some 0, Some 0.5, Some (0.5::real)]\<rparr>"
  have wf: "well_formed ?P ?W ''A'' ''B''"
    by (simp add: well_formed_def panel_ok_def)
  obtain r where r: "run_backtest_safe ?P ?W ''A'' ''B'' 10 ''SPY'' None = Inr r"
    by (simp add: run_backtest_safe_result [where ?col1.0 = "[1, 1, 4]" and ?col2.0 = "[1, 1, 1]"])
  from drawdown_never_positive [OF wf r] have "length (drawdown_out r) = 3"
    and "\<exists>d. drawdown_out r ! 2 = Some d \<and> d \<le> 0" by simp_all
  with wf r show ?thesis by blast
qed

section \<open>Net returns and the empty-series error\<close>

lemma growth_factors_nth_net:
  "net_returns col1 col2 positions tc_bps ! 0 = Some 0"
  if "0 < length (growth_factors col1 col2 positions tc_bps)"
  using that growth_factors_0 [OF that] by (simp add: net_returns_growth)

lemma length_returns_clean:
  assumes "length col1 = length idx" "length col2 = length idx"
    and "length (pos1 positions) = length idx" "length (pos2 positions) = length idx"
  shows "length (dropna_at idx (net_returns col1 col2 positions tc_bps)) = length idx"
proof -
  have len: "length idx = length (map (\<lambda>g. g - 1) (growth_factors col1 col2 positions tc_bps))"
    using assms by (simp add: length_growth_factors)
  show ?thesis
    unfolding net_returns_growth dropna_at_some [OF len] using len by simp
qed

text \<open>
  Claim C10. For every non-empty price panel (positive prices) and position frame on its
  index, \<^verbatim>\<open>run_backtest_safe\<close> returns a result whose net-return series has one entry per
  row and no missing entry; the first net return is 0, the first value of the equity curve
  is 1, and the cleaned return series, whose length is the number of trading days, is as
  long as the panel.
\<close>

theorem net_returns_have_no_missing_entry:
  assumes "well_formed prices positions ticker1 ticker2" and "index prices \<noteq> []"
  shows "\<exists>r. run_backtest_safe prices positions ticker1 ticker2 tc_bps benchmark downloaded = Inr r
           \<and> length (returns_out r) = length (index prices)
           \<and> None \<notin> set (returns_out r)
           \<and> returns_out r ! 0 = Some 0
           \<and> equity_curve_out r ! 0 = Some 1
           \<and> length (dropna_at (index prices) (returns_out r)) = length (index prices)
           \<and> trading_days_out r = length (index prices)"
proof -
  from assms(1) obtain col1 col2 where c:
    "columns prices ticker1 = Some col1" "columns prices ticker2 = Some col2"
    "length col1 = length (index prices)" "length col2 = length (index prices)"
    "length (pos1 positions) = length (index prices)"
    "length (pos2 positions) = length (index prices)"
    by (rule well_formedD)
  let ?g = "growth_factors col1 col2 positions tc_bps"
  let ?net = "net_returns col1 col2 positions tc_bps"
  have len: "length ?g = length (index prices)"
    using c by (simp add: length_growth_factors)
  then have pos: "0 < length ?g" using assms(2) by simp
  have l: "length ?net = length (index prices)"
    using len by (simp add: net_returns_growth)
  have m: "None \<notin> set ?net"
    by (auto simp: net_returns_growth)
  have d: "length (dropna_at (index prices) ?net) = length (index prices)"
    using c by (simp add: length_returns_clean)
  show ?thesis
    unfolding run_backtest_safe_result [OF c]
    using assms(2) l m d growth_factors_nth_net [OF pos] equity_curve_0 [OF pos]
    by simp
qed

theorem net_returns_have_no_missing_entry_witness:
  "well_formed \<lparr>index = [0, 1, 2], columns = [''A'' \<mapsto> [1, 1, 4], ''B'' \<mapsto> [1, 1, 1]]\<rparr>
     \<lparr>pos1 = [Some 0.5, Some (- 0.5), None], pos2 = [Some (- 0.5), Some 0.5, None]\<rparr> ''A'' ''B''
   \<and> index \<lparr>index = [0, 1, 2], columns = [''A'' \<mapsto> [1, 1, 4], ''B'' \<mapsto> [1::real, 1, 1]]\<rparr> \<noteq> []
   \<and> (\<exists>r. run_backtest_safe
            \<lparr>index = [0, 1, 2], columns = [''A'' \<mapsto> [1, 1, 4], ''B'' \<mapsto> [1, 1, 1]]\<rparr>
            \<lparr>pos1 = [Some 0.5, Some (- 0.5), None], pos2 = [Some (- 0.5), Some 0.5, None]\<rparr>
            ''A'' ''B'' 10 ''SPY'' None = Inr r
          \<and> returns_out r ! 0 = Some 0 \<and> equity_curve_out r ! 0 = Some 1
          \<and> trading_days_out r = 3)"
proof -
  let ?P = "\<lparr>index = [0, 1, 2], columns = [''A'' \<mapsto> [1, 1, 4], ''B'' \<mapsto> [1::real, 1, 1]]\<rparr>"
  let ?W = "\<lparr>pos1 = [Some 0.5, Some (- 0.5), None], pos2 = [Some (- 0.5), Some (0.5::real), None]\<rparr>"
  have wf: "well_formed ?P ?W ''A'' ''B''"
    by (simp add: well_formed_def panel_ok_def)
  have ne: "index ?P \<noteq> []" by simp
  from net_returns_have_no_missing_entry [OF wf ne, of 10 "''SPY''" None]
  obtain r where "run_backtest_safe ?P ?W ''A'' ''B'' 10 ''SPY'' None = Inr r"
    "returns_out r ! 0 = Some 0" "equity_curve_out r ! 0 = Some 1" "trading_days_out r = 3"
    by auto
  with wf ne show ?thesis by blast
qed

section \<open>Warm-up of the rolling window\<close>

lemma length_dropna_le: "length (dropna xs) \<le> length xs"
  by (induction xs rule: dropna.induct) simp_all

lemma length_rolling_mean [simp]: "length (rolling_mean window xs) = length xs"
  by (simp add: rolling_mean_def)

lemma length_rolling_std [simp]: "length (rolling_std window xs) = length xs"
  by (simp add: rolling_std_def)

lemma rolling_mean_warm_up:
  assumes "i < length xs" and "i < window - 1"
  shows "rolling_mean window xs ! i = None"
proof -
  have "length (dropna (window_at window xs i)) \<le> length (window_at window xs i)"
    by (rule length_dropna_le)
  also have "\<dots> \<le> Suc i" by (simp add: window_at_def)
  also have "\<dots> < window" using assms(2) by simp
  finally show ?thesis using assms(1) by (simp add: rolling_mean_def Let_def)
qed

lemma fsub_None [simp]: "fsub x None = None"
  by (cases x) simp_all

lemma calculate_zscore_safe_Inr:
  assumes "calculate_zscore_safe prices ticker1 ticker2 window = Inr zscore"
  obtains col1 col2 where
    "columns prices ticker1 = Some col1" "columns prices ticker2 = Some col2"
    "zscore = map2 (\<lambda>(r, m) s. fdiv (fsub r m) s)
       (zip (map2 fdiv (map Some col1) (map Some col2))
            (rolling_mean window (map2 fdiv (map Some col1) (map Some col2))))
       (map (\<lambda>s. if s = Some 0 then None else s)
            (rolling_std window (map2 fdiv (map Some col1) (map Some col2))))"
  using assms
  by (auto simp: calculate_zscore_safe_def Let_def split: option.splits if_splits)

lemma zscore_warm_up:
  assumes "calculate_zscore_safe prices ticker1 ticker2 window = Inr zscore"
    and "t < window - 1" and "t < length zscore"
  shows "zscore ! t = None"
proof -
  from assms(1) obtain col1 col2 where z:
    "zscore = map2 (\<lambda>(r, m) s. fdiv (fsub r m) s)
       (zip (map2 fdiv (map Some col1) (map Some col2))
            (rolling_mean window (map2 fdiv (map Some col1) (map Some col2))))
       (map (\<lambda>s. if s = Some 0 then None else s)
            (rolling_std window (map2 fdiv (map Some col1) (map Some col2))))"
    by (rule calculate_zscore_safe_Inr)
  let ?ratio = "map2 fdiv (map Some col1) (map Some col2)"
  have t: "t < length ?ratio" using assms(3) unfolding z by simp
  have "rolling_mean window ?ratio ! t = None"
    using t assms(2) by (rule rolling_mean_warm_up)
  then show ?thesis using t unfolding z by simp
qed

lemma signals_loop_missing:
  "i < length zs \<Longrightarrow> zs ! i = None \<Longrightarrow> signals_loop e x p zs ! i = 0"
proof (induction e x p zs arbitrary: i rule: signals_loop.induct)
  case (1 e x p)
  then show ?case by simp
next
  case (2 e x p zs)
  then show ?case by (cases i) simp_all
next
  case (3 e x p z zs)
  then show ?case by (cases i) (simp_all add: Let_def)
qed

text \<open>
  Claim C8. Of the z-scores that \<^verbatim>\<open>calculate_zscore_safe\<close> returns for a rolling window
  \<open>w\<close>, the first \<open>w - 1\<close> are missing, and the signal of \<^verbatim>\<open>generate_signals_safe\<close> at
  each of those timestamps is 0 (Flat), whatever the thresholds.
\<close>

theorem warm_up_has_no_position:
  assumes "calculate_zscore_safe prices ticker1 ticker2 window = Inr zscore"
    and "t < window - 1" and "t < length zscore"
  shows "zscore ! t = None \<and>
         (\<exists>signals. generate_signals_safe zscore entry_threshold exit_threshold = Inr signals \<and>
            length signals = length zscore \<and> signals ! t = 0)"
  using zscore_warm_up [OF assms] assms(3)
  by (simp add: generate_signals_safe_def signals_loop_missing)

theorem warm_up_has_no_position_witness:
  "\<exists>zscore.
     calculate_zscore_safe
       \<lparr>index = [0, 1, 2, 3], columns = [''A'' \<mapsto> [1, 2, 4, 16], ''B'' \<mapsto> [1, 1, 1, 1]]\<rparr>
       ''A'' ''B'' 3 = Inr zscore
     \<and> (1::nat) < 3 - 1 \<and> 1 < length zscore \<and> length zscore = 4
     \<and> zscore ! 1 = None
     \<and> (\<exists>signals. generate_signals_safe zscore 1.5 0.5 = Inr signals \<and> signals ! 1 = 0)"
proof -
  let ?P = "\<lparr>index = [0, 1, 2, 3], columns = [''A'' \<mapsto> [1, 2, 4, 16], ''B'' \<mapsto> [1::real, 1, 1, 1]]\<rparr>"
  obtain z where z: "calculate_zscore_safe ?P ''A'' ''B'' 3 = Inr z" and l: "length z = 4"
    by (simp add: calculate_zscore_safe_def Let_def)
  have a: "(1::nat) < 3 - 1" by simp
  have b: "1 < length z" using l by simp
  from warm_up_has_no_position [OF z a b, of "1.5" "0.5"] z a b l
  show ?thesis by auto
qed

section \<open>Exposures\<close>

lemma signals_loop_range:
  "p \<in> {- 1, 0, 1} \<Longrightarrow> s \<in> set (signals_loop e x p zs) \<Longrightarrow> s \<in> {- 1, 0, 1}"
  by (induction e x p zs rule: signals_loop.induct) (auto simp: Let_def split: if_splits)

lemma run_backtest_safe_exposures:
  assumes "run_backtest_safe prices positions ticker1 ticker2 tc_bps benchmark downloaded = Inr r"
  shows "net_exposure_out r = net_exposure positions"
    and "gross_exposure_out r = gross_exposure positions"
  using assms
  by (auto simp: run_backtest_safe_def Let_def split: option.splits if_splits prod.splits)

text \<open>
  Claim C9. With the weights that \<^verbatim>\<open>main\<close> builds from the signals of
  \<^verbatim>\<open>generate_signals_safe\<close>, half the signal on \<^verbatim>\<open>ticker1\<close> and minus half the signal on
  \<^verbatim>\<open>ticker2\<close> (two tickers, which \<^verbatim>\<open>main\<close> has checked to differ), at every timestamp whose signal is not 0 (the position is not Flat) the net
  exposure of the backtest result is 0 and its gross exposure is 1.
\<close>

theorem open_position_is_dollar_neutral:
  assumes "generate_signals_safe zscore entry_threshold exit_threshold = Inr signals"
    and "run_backtest_safe prices (make_positions signals) ticker1 ticker2 tc_bps benchmark downloaded
           = Inr r"
    and "t < length signals" and "signals ! t \<noteq> 0" and "ticker1 \<noteq> ticker2"
  shows "net_exposure_out r ! t = Some 0 \<and> gross_exposure_out r ! t = Some 1"
proof -
  have "signals ! t \<in> set signals" using assms(3) by simp
  then have "signals ! t \<in> {- 1, 0, 1}"
    using assms(1) signals_loop_range [of 0 "signals ! t" entry_threshold exit_threshold zscore]
    by (auto simp: generate_signals_safe_def)
  then have s: "signals ! t = - 1 \<or> signals ! t = 1" using assms(4) by auto
  have "net_exposure (make_positions signals) ! t = Some 0"
    using assms(3) by (simp add: net_exposure_def make_positions_def sum_axis1_nth)
  moreover have "gross_exposure (make_positions signals) ! t = Some 1"
    using assms(3) s by (auto simp: gross_exposure_def make_positions_def sum_axis1_nth)
  ultimately show ?thesis
    using run_backtest_safe_exposures [OF assms(2)] by simp
qed

theorem open_position_is_dollar_neutral_witness:
  "generate_signals_safe [None, Some 2, Some 1] 1.5 0.5 = Inr [0, - 1, - 1]
   \<and> (\<exists>r. run_backtest_safe
         \<lparr>index = [0, 1, 2], columns = [''A'' \<mapsto> [1, 1, 4], ''B'' \<mapsto> [1, 1, 1]]\<rparr>
         (make_positions [0, - 1, - 1]) ''A'' ''B'' 10 ''SPY'' None = Inr r
        \<and> (1::nat) < length [0::int, - 1, - 1] \<and> [0::int, - 1, - 1] ! 1 \<noteq> 0
        \<and> ''A'' \<noteq> ''B''
        \<and> net_exposure_out r ! 1 = Some 0 \<and> gross_exposure_out r ! 1 = Some 1)"
proof -
  let ?P = "\<lparr>index = [0, 1, 2], columns = [''A'' \<mapsto> [1, 1, 4], ''B'' \<mapsto> [1::real, 1, 1]]\<rparr>"
  have g: "generate_signals_safe [None, Some 2, Some 1] 1.5 0.5 = Inr [0, - 1, - 1]"
    by (simp add: generate_signals_safe_def Let_def)
  obtain r where r: "run_backtest_safe ?P (make_positions [0, - 1, - 1]) ''A'' ''B'' 10 ''SPY'' None = Inr r"
    by (simp add: run_backtest_safe_result [where ?col1.0 = "[1, 1, 4]" and ?col2.0 = "[1, 1, 1]"]
          make_positions_def)
  have a: "(1::nat) < length [0::int, - 1, - 1]" by simp
  have b: "[0::int, - 1, - 1] ! 1 \<noteq> 0" by simp
  have d: "''A'' \<noteq> ''B''" by simp
  from open_position_is_dollar_neutral [OF g r a b d] g r a b d
  show ?thesis by blast
qed

section \<open>Lagged weights\<close>

text \<open>
  Claim C3. At every timestamp \<open>t\<close> after the first, the strategy return that
  \<^verbatim>\<open>run_backtest_safe\<close> computes is the sum, over the two tickers, of the weight at \<open>t - 1\<close>
  times the simple price return at \<open>t\<close> (a missing weight contributes nothing), the net
  return of the result is that sum minus the transaction cost, and the strategy return at
  \<open>t\<close> does not change when the weights at \<open>t\<close> are replaced. At the first timestamp,
  which has no earlier weight, the strategy return is 0.
\<close>

theorem strategy_return_uses_lagged_weight:
  assumes "well_formed prices positions ticker1 ticker2"
    and "columns prices ticker1 = Some col1" and "columns prices ticker2 = Some col2"
    and "0 < t" and "t < length (index prices)"
  shows "strategy_returns col1 col2 positions ! t =
           nansum [fmul (pos1 positions ! (t - 1)) (Some (col1 ! t / col1 ! (t - 1) - 1)),
                   fmul (pos2 positions ! (t - 1)) (Some (col2 ! t / col2 ! (t - 1) - 1))]
       \<and> (\<exists>r. run_backtest_safe prices positions ticker1 ticker2 tc_bps benchmark downloaded = Inr r
              \<and> returns_out r ! t =
                  fsub (strategy_returns col1 col2 positions ! t)
                       (transaction_costs positions tc_bps ! t))
       \<and> strategy_returns col1 col2
            (positions\<lparr>pos1 := (pos1 positions)[t := w1], pos2 := (pos2 positions)[t := w2]\<rparr>) ! t
          = strategy_returns col1 col2 positions ! t
       \<and> strategy_returns col1 col2 positions ! 0 = Some 0"
proof -
  from assms(1) have c:
    "length col1 = length (index prices)" "length col2 = length (index prices)"
    "length (pos1 positions) = length (index prices)"
    "length (pos2 positions) = length (index prices)"
    and p: "list_all (\<lambda>p. 0 < p) col1" "list_all (\<lambda>p. 0 < p) col2"
    using assms(2,3) by (auto elim!: well_formedD)
  have t1: "t - 1 < length col1" "t - 1 < length col2" using assms(5) c by simp_all
  have nz: "col1 ! (t - 1) \<noteq> 0" "col2 ! (t - 1) \<noteq> 0"
    using p t1 by (auto simp: list_all_length)
  have r1: "pct_change col1 ! t = Some (col1 ! t / col1 ! (t - 1) - 1)"
    and r2: "pct_change col2 ! t = Some (col2 ! t / col2 ! (t - 1) - 1)"
    using assms(4,5) c nz by (simp_all add: pct_change_nth)
  have first: "strategy_returns col1 col2 positions ! t =
           nansum [fmul (pos1 positions ! (t - 1)) (Some (col1 ! t / col1 ! (t - 1) - 1)),
                   fmul (pos2 positions ! (t - 1)) (Some (col2 ! t / col2 ! (t - 1) - 1))]"
    using assms(4,5) c r1 r2
    by (simp add: strategy_returns_def sum_axis1_def shift1_nth)
  have third: "strategy_returns col1 col2
            (positions\<lparr>pos1 := (pos1 positions)[t := w1], pos2 := (pos2 positions)[t := w2]\<rparr>) ! t
          = strategy_returns col1 col2 positions ! t"
    using assms(4,5) c
    by (simp add: strategy_returns_def sum_axis1_def shift1_nth)
  have l: "t < length (strategy_returns col1 col2 positions)"
    "t < length (transaction_costs positions tc_bps)"
    using assms(5) c by (simp_all add: strategy_returns_def transaction_costs_def turnover_def)
  have second: "\<exists>r. run_backtest_safe prices positions ticker1 ticker2 tc_bps benchmark downloaded = Inr r
              \<and> returns_out r ! t =
                  fsub (strategy_returns col1 col2 positions ! t)
                       (transaction_costs positions tc_bps ! t)"
    unfolding run_backtest_safe_result [OF assms(2,3) c]
    using assms(5) l by (auto simp: net_returns_def)
  have l0: "0 < length (strategy_values col1 col2 positions)"
    using l(1) by (auto simp: strategy_values_def)
  have fourth: "strategy_returns col1 col2 positions ! 0 = Some 0"
    unfolding strategy_returns_some using l0 strategy_values_0 [OF l0] by simp
  from first second third fourth show ?thesis by blast
qed

theorem strategy_return_uses_lagged_weight_witness:
  "well_formed \<lparr>index = [0, 1, 2], columns = [''A'' \<mapsto> [1, 1, 4], ''B'' \<mapsto> [1, 1, 1]]\<rparr>
     \<lparr>pos1 = [Some 0, Some (- 0.5), Some (- 0.5)], pos2 = [Some 0, Some 0.5, Some 0.5]\<rparr> ''A'' ''B''
   \<and> columns \<lparr>index = [0, 1, 2], columns = [''A'' \<mapsto> [1, 1, 4], ''B'' \<mapsto> [1, 1, 1]]\<rparr> ''A''
       = Some [1, 1, 4]
   \<and> columns \<lparr>index = [0, 1, 2], columns = [''A'' \<mapsto> [1, 1, 4], ''B'' \<mapsto> [1, 1, 1]]\<rparr> ''B''
       = Some [1, 1, 1]
   \<and> (0::nat) < 2
   \<and> 2 < length (index \<lparr>index = [0, 1, 2], columns = [''A'' \<mapsto> [1, 1, 4], ''B'' \<mapsto> [1::real, 1, 1]]\<rparr>)
   \<and> strategy_returns [1, 1, 4] [1, 1, 1]
         \<lparr>pos1 = [Some 0, Some (- 0.5), Some (- 0.5)], pos2 = [Some 0, Some 0.5, Some 0.5]\<rparr> ! 2
       = Some (- 1.5)
   \<and> strategy_returns [1, 1, 4] [1, 1, 1]
         \<lparr>pos1 = [Some 0, Some (- 0.5), Some 7], pos2 = [Some 0, Some 0.5, None]\<rparr> ! 2
       = Some (- 1.5)"
proof -
  let ?P = "\<lparr>index = [0, 1, 2], columns = [''A'' \<mapsto> [1, 1, 4], ''B'' \<mapsto> [1::real, 1, 1]]\<rparr>"
  let ?W = "\<lparr>pos1 = [Some 0, Some (- 0.5), Some (- 0.5)], pos2 = [Some 0, Some 0.5, Some (0.5::real)]\<rparr>"
  have wf: "well_formed ?P ?W ''A'' ''B''"
    by (simp add: well_formed_def panel_ok_def)
  have c1: "columns ?P ''A'' = Some [1, 1, 4]" and c2: "columns ?P ''B'' = Some [1, 1, 1]"
    by simp_all
  have a: "(0::nat) < 2" and b: "2 < length (index ?P)" by simp_all
  from strategy_return_uses_lagged_weight
         [OF wf c1 c2 a b, where tc_bps = 10 and benchmark = "''SPY''" and downloaded = None
            and ?w1.0 = "Some 7" and ?w2.0 = None]
  have "strategy_returns [1, 1, 4] [1, 1, 1] ?W ! 2 = Some (- 1.5)"
    and "strategy_returns [1, 1, 4] [1, 1, 1]
           \<lparr>pos1 = [Some 0, Some (- 0.5), Some 7], pos2 = [Some 0, Some 0.5, None]\<rparr> ! 2
         = Some (- 1.5)"
    by (simp_all add: nansum_def)
  with wf c1 c2 a b show ?thesis by blast
qed

section \<open>Transaction costs\<close>

lemma transaction_costs_doubled:
  "transaction_costs positions (2 * tc_bps) = map (fmul (Some 2)) (transaction_costs positions tc_bps)"
  by (simp add: transaction_costs_some)

lemma dropna_some [simp]: "dropna (map Some xs) = xs"
  by (induction xs) simp_all

lemma cumulative_costs_doubled:
  "sum_list (dropna (take k (transaction_costs positions (2 * tc_bps)))) =
     2 * sum_list (dropna (take k (transaction_costs positions tc_bps)))"
proof -
  have "sum_list (map (\<lambda>u. u * (2 * tc_bps / 10000)) us) =
        2 * sum_list (map (\<lambda>u. u * (tc_bps / 10000)) us)" for us :: "real list"
    by (induction us) (simp_all add: algebra_simps)
  then show ?thesis
    unfolding transaction_costs_some [of positions "2 * tc_bps"]
      transaction_costs_some [of positions tc_bps] take_map
    by (simp only: dropna_some)
qed

lemma last_equity_curve:
  assumes "growth_factors col1 col2 positions tc_bps \<noteq> []"
  shows "last (equity_curve col1 col2 positions tc_bps) =
           Some (prod_list (growth_factors col1 col2 positions tc_bps))"
  using assms by (simp add: equity_curve_some last_map last_running_products)

text \<open>
  The product of the growth factors at a cost rate \<open>c\<close> and at the doubled rate, over the
  rows \<open>(s, u)\<close> of strategy return and turnover.
\<close>

lemma prod_doubled_cost:
  fixes c :: real and rows :: "(real \<times> real) list"
  assumes "0 < c"
    and "\<forall>(s, u) \<in> set rows. 0 \<le> u \<and> 0 < 1 + (s - u * (2 * c))"
  shows "0 < prod_list (map (\<lambda>(s, u). 1 + (s - u * (2 * c))) rows)"
    and "prod_list (map (\<lambda>(s, u). 1 + (s - u * (2 * c))) rows)
           \<le> prod_list (map (\<lambda>(s, u). 1 + (s - u * c)) rows)"
    and "(\<exists>(s, u) \<in> set rows. 0 < u) \<Longrightarrow>
         prod_list (map (\<lambda>(s, u). 1 + (s - u * (2 * c))) rows)
           < prod_list (map (\<lambda>(s, u). 1 + (s - u * c)) rows)"
  using assms(2)
proof (induction rows)
  case Nil
  {
    case 1 show ?case by simp
  next
    case 2 show ?case by simp
  next
    case 3 then show ?case by simp
  }
next
  case (Cons row rows)
  obtain s u where row: "row = (s, u)" by (cases row)
  let ?B = "prod_list (map (\<lambda>(s, u). 1 + (s - u * (2 * c))) rows)"
  let ?A = "prod_list (map (\<lambda>(s, u). 1 + (s - u * c)) rows)"
  let ?b = "1 + (s - u * (2 * c))"
  let ?a = "1 + (s - u * c)"
  {
    case 1
    then have rest: "\<forall>(s, u) \<in> set rows. 0 \<le> u \<and> 0 < 1 + (s - u * (2 * c))"
      and b: "0 < ?b" by (auto simp: row)
    from Cons.IH(1) [OF rest] b show ?case by (simp add: row)
  next
    case 2
    then have rest: "\<forall>(s, u) \<in> set rows. 0 \<le> u \<and> 0 < 1 + (s - u * (2 * c))"
      and b: "0 < ?b" and u: "0 \<le> u" by (auto simp: row)
    have ab: "?b \<le> ?a" using u assms(1) by (simp add: mult_left_mono)
    have a: "0 \<le> ?a" using ab b by linarith
    have B: "0 \<le> ?B" using Cons.IH(1) [OF rest] by simp
    have "?b * ?B \<le> ?a * ?A"
      using ab Cons.IH(2) [OF rest] a B by (rule mult_mono)
    then show ?case by (simp add: row)
  next
    case 3
    then have rest: "\<forall>(s, u) \<in> set rows. 0 \<le> u \<and> 0 < 1 + (s - u * (2 * c))"
      and b: "0 < ?b" and u: "0 \<le> u" by (auto simp: row)
    have ab: "?b \<le> ?a" using u assms(1) by (simp add: mult_left_mono)
    have B: "0 < ?B" and BA: "?B \<le> ?A"
      using Cons.IH(1) [OF rest] Cons.IH(2) [OF rest] by simp_all
    have "?b * ?B < ?a * ?A"
    proof (cases "0 < u")
      case True
      then have "?b < ?a" using assms(1) by simp
      then have "?b * ?B < ?a * ?B" using B by simp
      also have "\<dots> \<le> ?a * ?A"
      proof (rule mult_left_mono [OF BA])
        show "0 \<le> ?a" using b ab by linarith
      qed
      finally show ?thesis .
    next
      case False
      then have "\<exists>(s, u) \<in> set rows. 0 < u" using "3.prems"(1) by (auto simp: row)
      from Cons.IH(3) [OF this rest] have "?B < ?A" .
      then have "?b * ?B < ?b * ?A" using b by simp
      also have "\<dots> \<le> ?a * ?A"
      proof (rule mult_right_mono [OF ab])
        show "0 \<le> ?A" using B BA by linarith
      qed
      finally show ?thesis .
    qed
    then show ?case by (simp add: row)
  }
qed

lemma growth_factors_rows:
  "growth_factors col1 col2 positions tc_bps =
     map (\<lambda>(s, u). 1 + (s - u * (tc_bps / 10000)))
       (zip (strategy_values col1 col2 positions) (turnover_values positions))"
  by (simp add: growth_factors_def)

lemma terminal_equity_doubled_cost:
  assumes len: "length (strategy_values col1 col2 positions) = length (turnover_values positions)"
    and ne: "turnover_values positions \<noteq> []"
    and cost: "0 < tc_bps"
    and pos: "\<forall>g \<in> set (growth_factors col1 col2 positions (2 * tc_bps)). 0 < g"
  shows "\<exists>a b. last (equity_curve col1 col2 positions tc_bps) = Some a \<and>
               last (equity_curve col1 col2 positions (2 * tc_bps)) = Some b \<and>
               (if sum_list (dropna (turnover positions)) = 0 then b = a else b < a)"
proof -
  let ?rows = "zip (strategy_values col1 col2 positions) (turnover_values positions)"
  let ?c = "tc_bps / 10000"
  let ?A = "prod_list (map (\<lambda>(s, u). 1 + (s - u * ?c)) ?rows)"
  let ?B = "prod_list (map (\<lambda>(s, u). 1 + (s - u * (2 * ?c))) ?rows)"
  have g1: "growth_factors col1 col2 positions tc_bps = map (\<lambda>(s, u). 1 + (s - u * ?c)) ?rows"
    by (rule growth_factors_rows)
  have g2: "growth_factors col1 col2 positions (2 * tc_bps) =
              map (\<lambda>(s, u). 1 + (s - u * (2 * ?c))) ?rows"
    by (simp add: growth_factors_rows)
  have rows_ne: "?rows \<noteq> []" using len ne by (cases "strategy_values col1 col2 positions"; cases "turnover_values positions") simp_all
  have c: "0 < ?c" using cost by simp
  have hyp: "\<forall>(s, u) \<in> set ?rows. 0 \<le> u \<and> 0 < 1 + (s - u * (2 * ?c))"
  proof (clarify, intro conjI)
    fix s u assume m: "(s, u) \<in> set ?rows"
    show "0 \<le> u" using m by (auto dest: set_zip_rightD intro: turnover_values_nonneg)
    have "1 + (s - u * (2 * ?c)) \<in> set (growth_factors col1 col2 positions (2 * tc_bps))"
      unfolding g2 using m by force
    then show "0 < 1 + (s - u * (2 * ?c))" using pos by blast
  qed
  have a: "last (equity_curve col1 col2 positions tc_bps) = Some ?A"
    using rows_ne by (simp add: last_equity_curve g1)
  have b: "last (equity_curve col1 col2 positions (2 * tc_bps)) = Some ?B"
    using rows_ne last_equity_curve [of col1 col2 positions "2 * tc_bps"] unfolding g2 by simp
  have total: "sum_list (dropna (turnover positions)) = sum_list (turnover_values positions)"
    by (simp add: turnover_some)
  have cmp: "if sum_list (turnover_values positions) = 0 then ?B = ?A else ?B < ?A"
  proof (cases "sum_list (turnover_values positions) = 0")
    case True
    have "\<forall>u \<in> set (turnover_values positions). u = 0"
      using True turnover_values_nonneg [of _ positions]
      by (simp add: sum_list_nonneg_eq_0_iff)
    then have "\<forall>(s, u) \<in> set ?rows. u = 0" by (auto dest: set_zip_rightD)
    then have "map (\<lambda>(s, u). 1 + (s - u * (2 * ?c))) ?rows = map (\<lambda>(s, u). 1 + (s - u * ?c)) ?rows"
      by (intro map_cong) auto
    then have "?B = ?A" by (rule arg_cong)
    then show ?thesis unfolding if_P [OF True] .
  next
    case False
    have "\<not> (\<forall>u \<in> set (turnover_values positions). u = 0)"
      using False turnover_values_nonneg [of _ positions]
      by (simp add: sum_list_nonneg_eq_0_iff)
    then obtain u where u: "u \<in> set (turnover_values positions)" "u \<noteq> 0"
      by blast
    then have "0 < u" using turnover_values_nonneg [OF u(1)] by simp
    moreover obtain i where "i < length (turnover_values positions)" "turnover_values positions ! i = u"
      using u(1) by (auto simp: in_set_conv_nth)
    ultimately have "\<exists>(s, u) \<in> set ?rows. 0 < u"
      using len by (auto simp: in_set_zip intro!: bexI [of _ "(strategy_values col1 col2 positions ! i, u)"])
    from prod_doubled_cost(3) [OF c hyp this] show ?thesis unfolding if_not_P [OF False] .
  qed
  show ?thesis
    unfolding a b total using cmp by blast
qed

lemmas series_evals =
  net_returns_def strategy_returns_def transaction_costs_def turnover_def equity_curve_def
  cumprod_def sum_axis1_def nansum_def shift1_def diff_def pct_change_def Let_def

text \<open>
  Claim C6, as the code has it. With the price panel and the position frame fixed,
  doubling the cost in basis points doubles the transaction cost at every timestamp and
  the cumulative transaction cost up to every timestamp. When the cost is positive and
  every net return at the doubled cost is above -1 (every factor of the equity curve is
  positive), the last value of the equity curve at the doubled cost is smaller, or the
  same when the total turnover is 0. The backtest returns these series.
\<close>

theorem doubling_the_cost:
  assumes "well_formed prices positions ticker1 ticker2"
    and "columns prices ticker1 = Some col1" and "columns prices ticker2 = Some col2"
    and "index prices \<noteq> []"
  shows "transaction_costs positions (2 * tc_bps) =
           map (fmul (Some 2)) (transaction_costs positions tc_bps)
       \<and> (\<forall>k. sum_list (dropna (take k (transaction_costs positions (2 * tc_bps)))) =
                2 * sum_list (dropna (take k (transaction_costs positions tc_bps))))
       \<and> (0 < tc_bps \<and>
            (\<forall>x \<in> set (net_returns col1 col2 positions (2 * tc_bps)). \<exists>v. x = Some v \<and> - 1 < v)
            \<longrightarrow> (\<exists>a b. last (equity_curve col1 col2 positions tc_bps) = Some a \<and>
                       last (equity_curve col1 col2 positions (2 * tc_bps)) = Some b \<and>
                       (if sum_list (dropna (turnover positions)) = 0 then b = a else b < a)))
       \<and> (\<exists>r. run_backtest_safe prices positions ticker1 ticker2 tc_bps benchmark downloaded = Inr r
              \<and> equity_curve_out r = equity_curve col1 col2 positions tc_bps
              \<and> turnover_out r = turnover positions)"
proof -
  from assms(1) have c:
    "length col1 = length (index prices)" "length col2 = length (index prices)"
    "length (pos1 positions) = length (index prices)"
    "length (pos2 positions) = length (index prices)"
    using assms(2,3) by (auto elim!: well_formedD)
  have len: "length (strategy_values col1 col2 positions) = length (turnover_values positions)"
    using c by (simp add: length_strategy_values length_turnover_values)
  have "length (turnover_values positions) = length (index prices)"
    using c by (simp add: length_turnover_values)
  then have ne: "turnover_values positions \<noteq> []"
    using assms(4) by (metis length_0_conv)
  have third: "\<exists>a b. last (equity_curve col1 col2 positions tc_bps) = Some a \<and>
                  last (equity_curve col1 col2 positions (2 * tc_bps)) = Some b \<and>
                  (if sum_list (dropna (turnover positions)) = 0 then b = a else b < a)"
    if cost: "0 < tc_bps"
      and net: "\<forall>x \<in> set (net_returns col1 col2 positions (2 * tc_bps)). \<exists>v. x = Some v \<and> - 1 < v"
  proof -
    have "\<forall>g \<in> set (growth_factors col1 col2 positions (2 * tc_bps)). 0 < g"
    proof
      fix g assume "g \<in> set (growth_factors col1 col2 positions (2 * tc_bps))"
      then have "Some (g - 1) \<in> set (net_returns col1 col2 positions (2 * tc_bps))"
        unfolding net_returns_growth by force
      with net show "0 < g" by force
    qed
    with len ne cost show ?thesis by (rule terminal_equity_doubled_cost)
  qed
  have fourth: "\<exists>r. run_backtest_safe prices positions ticker1 ticker2 tc_bps benchmark downloaded = Inr r
              \<and> equity_curve_out r = equity_curve col1 col2 positions tc_bps
              \<and> turnover_out r = turnover positions"
    unfolding run_backtest_safe_result [OF assms(2,3) c] using assms(4) by simp
  show ?thesis
    using transaction_costs_doubled [of positions tc_bps]
      cumulative_costs_doubled [of _ positions tc_bps] third fourth
    by blast
qed

theorem doubling_the_cost_witness:
  "well_formed \<lparr>index = [0, 1, 2], columns = [''A'' \<mapsto> [1, 1, 2], ''B'' \<mapsto> [1, 1, 1]]\<rparr>
     \<lparr>pos1 = [Some 0, Some (- 0.5), Some (- 0.5)], pos2 = [Some 0, Some 0.5, Some 0.5]\<rparr> ''A'' ''B''
   \<and> (0::real) < 10
   \<and> net_returns [1, 1, 2] [1, 1, 1]
         \<lparr>pos1 = [Some 0, Some (- 0.5), Some (- 0.5)], pos2 = [Some 0, Some 0.5, Some 0.5]\<rparr> (2 * 10)
       = [Some 0, Some (- 0.002), Some (- 0.5)]
   \<and> sum_list (dropna (turnover
         \<lparr>pos1 = [Some 0, Some (- 0.5), Some (- 0.5)], pos2 = [Some 0, Some 0.5, Some 0.5]\<rparr>)) = 1
   \<and> (\<exists>a b. last (equity_curve [1, 1, 2] [1, 1, 1]
                 \<lparr>pos1 = [Some 0, Some (- 0.5), Some (- 0.5)], pos2 = [Some 0, Some 0.5, Some 0.5]\<rparr> 10)
               = Some a
            \<and> last (equity_curve [1, 1, 2] [1, 1, 1]
                 \<lparr>pos1 = [Some 0, Some (- 0.5), Some (- 0.5)], pos2 = [Some 0, Some 0.5, Some 0.5]\<rparr> (2 * 10))
               = Some b
            \<and> b < a)"
proof -
  let ?P = "\<lparr>index = [0, 1, 2], columns = [''A'' \<mapsto> [1, 1, 2], ''B'' \<mapsto> [1::real, 1, 1]]\<rparr>"
  let ?W = "\<lparr>pos1 = [Some 0, Some (- 0.5), Some (- 0.5)], pos2 = [Some 0, Some 0.5, Some (0.5::real)]\<rparr>"
  have wf: "well_formed ?P ?W ''A'' ''B''"
    by (simp add: well_formed_def panel_ok_def)
  have c1: "columns ?P ''A'' = Some [1, 1, 2]" and c2: "columns ?P ''B'' = Some [1, 1, 1]"
    by simp_all
  have ne: "index ?P \<noteq> []" by simp
  have cost: "(0::real) < 10" by simp
  have net: "net_returns [1, 1, 2] [1, 1, 1] ?W (2 * 10) = [Some 0, Some (- 0.002), Some (- 0.5)]"
    by (simp add: series_evals)
  have turn: "sum_list (dropna (turnover ?W)) = 1"
    by (simp add: series_evals)
  from doubling_the_cost [OF wf c1 c2 ne, of 10 "''SPY''" None]
  have "\<exists>a b. last (equity_curve [1, 1, 2] [1, 1, 1] ?W 10) = Some a \<and>
              last (equity_curve [1, 1, 2] [1, 1, 1] ?W (2 * 10)) = Some b \<and> b < a"
    unfolding net turn by simp
  with wf cost net turn show ?thesis by blast
qed

text \<open>
  Claim C6 as stated fails when a factor of the equity curve is negative. The panel has
  the prices 1, 1, 4 of \<^verbatim>\<open>A\<close> and 1, 1, 1 of \<^verbatim>\<open>B\<close>; the position, opened at the second
  row, is short \<^verbatim>\<open>A\<close>. The total turnover is 1, and the equity curve ends at -0.4995 with
  a cost of 10 basis points and at -0.499, which is more, with 20.
\<close>

theorem doubling_the_cost_can_raise_terminal_equity:
  "\<exists>r r'.
     run_backtest_safe
       \<lparr>index = [0, 1, 2], columns = [''A'' \<mapsto> [1, 1, 4], ''B'' \<mapsto> [1, 1, 1]]\<rparr>
       \<lparr>pos1 = [Some 0, Some (- 0.5), Some (- 0.5)], pos2 = [Some 0, Some 0.5, Some 0.5]\<rparr>
       ''A'' ''B'' 10 ''SPY'' None = Inr r
     \<and> run_backtest_safe
       \<lparr>index = [0, 1, 2], columns = [''A'' \<mapsto> [1, 1, 4], ''B'' \<mapsto> [1, 1, 1]]\<rparr>
       \<lparr>pos1 = [Some 0, Some (- 0.5), Some (- 0.5)], pos2 = [Some 0, Some 0.5, Some 0.5]\<rparr>
       ''A'' ''B'' (2 * 10) ''SPY'' None = Inr r'
     \<and> turnover_out r = [Some 0, Some 1, Some 0]
     \<and> turnover_out r' = [Some 0, Some 1, Some 0]
     \<and> last (equity_curve_out r) = Some (- 0.4995)
     \<and> last (equity_curve_out r') = Some (- 0.499)
     \<and> (- 0.4995 :: real) < - 0.499"
  by (simp add: run_backtest_safe_result [where ?col1.0 = "[1, 1, 4]" and ?col2.0 = "[1, 1, 1]"]
        series_evals)

section \<open>A window longer than the sample\<close>

lemma panel_okD:
  assumes "panel_ok prices ticker1 ticker2"
  obtains col1 col2 where
    "columns prices ticker1 = Some col1" "columns prices ticker2 = Some col2"
    "length col1 = length (index prices)" "length col2 = length (index prices)"
    "list_all (\<lambda>p. 0 < p) col1" "list_all (\<lambda>p. 0 < p) col2"
  using assms by (auto simp: panel_ok_def split: option.splits)

lemma ratio_of_positive_prices:
  assumes "list_all (\<lambda>p. 0 < p) col1" "list_all (\<lambda>p. 0 < p) col2"
    and "r \<in> set (map2 fdiv (map Some col1) (map Some col2))"
  shows "r \<noteq> Some 0 \<and> r \<noteq> None"
proof -
  from assms(3) obtain a b where ab: "(a, b) \<in> set (zip col1 col2)" "r = fdiv (Some a) (Some b)"
    by (auto simp: zip_map_map)
  then have "a \<in> set col1" "b \<in> set col2" by (auto dest: set_zip_leftD set_zip_rightD)
  then have "0 < a" "0 < b" using assms(1,2) by (auto simp: list_all_iff)
  then show ?thesis using ab(2) by simp
qed

lemma calculate_zscore_safe_returns:
  assumes "panel_ok prices ticker1 ticker2" and "index prices \<noteq> []"
  shows "\<exists>zscore. calculate_zscore_safe prices ticker1 ticker2 window = Inr zscore \<and>
                  length zscore = length (index prices)"
proof -
  from assms(1) obtain col1 col2 where c:
    "columns prices ticker1 = Some col1" "columns prices ticker2 = Some col2"
    "length col1 = length (index prices)" "length col2 = length (index prices)"
    "list_all (\<lambda>p. 0 < p) col1" "list_all (\<lambda>p. 0 < p) col2"
    by (rule panel_okD)
  let ?ratio = "map2 fdiv (map Some col1) (map Some col2)"
  have len: "length ?ratio = length (index prices)" using c by simp
  then have ne: "?ratio \<noteq> []" using assms(2) by (metis length_0_conv)
  have ok: "\<forall>r \<in> set ?ratio. r \<noteq> Some 0 \<and> r \<noteq> None"
    using ratio_of_positive_prices [OF c(5,6)] by blast
  have no_zero: "\<not> list_ex (\<lambda>r. r = Some 0) ?ratio"
    using ok by (auto simp: list_ex_iff)
  have not_all: "\<not> list_all (\<lambda>r. r = None) ?ratio"
  proof
    assume "list_all (\<lambda>r. r = None) ?ratio"
    then have "\<forall>r \<in> set ?ratio. r = None" unfolding list_all_iff .
    moreover have "hd ?ratio \<in> set ?ratio" using ne by (rule hd_in_set)
    ultimately show False using ok by blast
  qed
  show ?thesis
    using no_zero not_all len
    by (simp add: calculate_zscore_safe_def c(1,2) Let_def)
qed

lemma fval_fmul_flat: "a = None \<or> a = Some 0 \<Longrightarrow> fval (fmul a x) = 0"
  by (cases x) auto

lemma flat_net_returns:
  assumes flat: "list_all (\<lambda>s. s = 0) signals"
    and len: "length col1 = length signals" "length col2 = length signals"
  shows "net_returns col1 col2 (make_positions signals) tc_bps = replicate (length signals) (Some 0)"
proof -
  let ?W = "make_positions signals"
  have z: "signals ! i = 0" if "i < length signals" for i
    using flat that by (simp add: list_all_length)
  have w1: "pos1 ?W ! i = Some 0" and w2: "pos2 ?W ! i = Some 0" if "i < length signals" for i
    using that z [OF that] by (simp_all add: make_positions_def)
  have lw: "length (pos1 ?W) = length signals" "length (pos2 ?W) = length signals"
    by (simp_all add: make_positions_def)
  have s1: "shift1 (pos1 ?W) ! i = None \<or> shift1 (pos1 ?W) ! i = Some 0"
    and s2: "shift1 (pos2 ?W) ! i = None \<or> shift1 (pos2 ?W) ! i = Some 0"
    if "i < length signals" for i
    using that lw w1 [of "i - 1"] w2 [of "i - 1"] by (auto simp: shift1_nth)
  have d1: "fval (fabs (diff (pos1 ?W) ! i)) = 0" and d2: "fval (fabs (diff (pos2 ?W) ! i)) = 0"
    if "i < length signals" for i
    using that lw w1 [OF that] w2 [OF that] w1 [of "i - 1"] w2 [of "i - 1"]
    by (auto simp: diff_nth)
  have sv: "strategy_values col1 col2 ?W ! i = 0" if "i < length signals" for i
    using that len lw s1 [OF that] s2 [OF that]
    by (simp add: strategy_values_def strategy_returns_def sum_axis1_nth fval_fmul_flat)
  have tv: "turnover_values ?W ! i = 0" if "i < length signals" for i
    using that lw d1 [OF that] d2 [OF that]
    by (simp add: turnover_values_def turnover_def sum_axis1_nth)
  have ls: "length (strategy_values col1 col2 ?W) = length signals"
    and lt: "length (turnover_values ?W) = length signals"
    using len lw by (simp_all add: length_strategy_values length_turnover_values)
  show ?thesis
    unfolding net_returns_some
    by (rule nth_equalityI) (simp_all add: ls lt sv tv)
qed

lemma flat_pipeline:
  assumes "panel_ok prices ticker1 ticker2" and "index prices \<noteq> []"
    and "length (index prices) < window"
  shows "\<exists>zscore signals r.
           calculate_zscore_safe prices ticker1 ticker2 window = Inr zscore \<and>
           length zscore = length (index prices) \<and> list_all (\<lambda>z. z = None) zscore \<and>
           generate_signals_safe zscore entry_threshold exit_threshold = Inr signals \<and>
           list_all (\<lambda>s. s = 0) signals \<and>
           run_backtest_safe prices (make_positions signals) ticker1 ticker2 tc_bps benchmark downloaded
             = Inr r \<and>
           returns_out r = replicate (length (index prices)) (Some 0)"
proof -
  from calculate_zscore_safe_returns [OF assms(1,2), of window]
  obtain zscore where z: "calculate_zscore_safe prices ticker1 ticker2 window = Inr zscore"
    and lz: "length zscore = length (index prices)" by blast
  have missing: "zscore ! t = None" if "t < length zscore" for t
  proof -
    have "t < window - 1" using that lz assms(3) by simp
    with z show ?thesis using that by (rule zscore_warm_up)
  qed
  then have all_missing: "list_all (\<lambda>z. z = None) zscore"
    by (simp add: list_all_length)
  let ?signals = "signals_loop entry_threshold exit_threshold 0 zscore"
  have g: "generate_signals_safe zscore entry_threshold exit_threshold = Inr ?signals"
    by (simp add: generate_signals_safe_def)
  have flat: "list_all (\<lambda>s. s = 0) ?signals"
    using missing by (simp add: list_all_length signals_loop_missing)
  from assms(1) obtain col1 col2 where c:
    "columns prices ticker1 = Some col1" "columns prices ticker2 = Some col2"
    "length col1 = length (index prices)" "length col2 = length (index prices)"
    by (rule panel_okD)
  have p: "length (pos1 (make_positions ?signals)) = length (index prices)"
    "length (pos2 (make_positions ?signals)) = length (index prices)"
    using lz by (simp_all add: make_positions_def)
  have "net_returns col1 col2 (make_positions ?signals) tc_bps =
          replicate (length ?signals) (Some 0)"
    using flat c(3,4) lz by (intro flat_net_returns) simp_all
  then have "\<exists>r. run_backtest_safe prices (make_positions ?signals) ticker1 ticker2 tc_bps
               benchmark downloaded = Inr r \<and>
             returns_out r = replicate (length (index prices)) (Some 0)"
    unfolding run_backtest_safe_result [OF c p] using assms(2) lz by simp
  with z lz all_missing g flat show ?thesis by blast
qed

text \<open>
  Claim C5, as the code has it. \<^verbatim>\<open>run_backtest_safe\<close> fails with the empty-return-series
  error exactly when no net return is left after the missing ones are dropped, and for a
  panel with positive prices and a position frame on its index that is exactly when the
  panel has no row: the row sums skip missing values, so no net return is missing. When
  the panel is not empty and has fewer rows than the rolling window, every z-score is
  missing, every signal is 0 (Flat), and the backtest on the weights built from these
  signals returns a result whose net returns are all 0, one per row of the panel, not
  this error.
\<close>

theorem empty_return_series_only_without_rows:
  assumes "well_formed prices positions ticker1 ticker2"
    and "columns prices ticker1 = Some col1" and "columns prices ticker2 = Some col2"
  shows "(run_backtest_safe prices positions ticker1 ticker2 tc_bps benchmark downloaded
            = Inl EmptyReturnSeries
          \<longleftrightarrow> dropna_at (index prices) (net_returns col1 col2 positions tc_bps) = [])
       \<and> (run_backtest_safe prices positions ticker1 ticker2 tc_bps benchmark downloaded
            = Inl EmptyReturnSeries
          \<longleftrightarrow> index prices = [])
       \<and> (index prices \<noteq> [] \<and> length (index prices) < window \<longrightarrow>
            (\<exists>zscore signals r.
               calculate_zscore_safe prices ticker1 ticker2 window = Inr zscore \<and>
               length zscore = length (index prices) \<and> list_all (\<lambda>z. z = None) zscore \<and>
               generate_signals_safe zscore entry_threshold exit_threshold = Inr signals \<and>
               list_all (\<lambda>s. s = 0) signals \<and>
               run_backtest_safe prices (make_positions signals) ticker1 ticker2 tc_bps
                 benchmark downloaded = Inr r \<and>
               returns_out r = replicate (length (index prices)) (Some 0)))"
proof -
  from assms(1) have c:
    "length col1 = length (index prices)" "length col2 = length (index prices)"
    "length (pos1 positions) = length (index prices)"
    "length (pos2 positions) = length (index prices)"
    using assms(2,3) by (auto elim!: well_formedD)
  have "length (dropna_at (index prices) (net_returns col1 col2 positions tc_bps)) =
        length (index prices)"
    using c by (simp add: length_returns_clean)
  then have e: "dropna_at (index prices) (net_returns col1 col2 positions tc_bps) = [] \<longleftrightarrow>
        index prices = []"
    by (metis length_0_conv)
  have first: "run_backtest_safe prices positions ticker1 ticker2 tc_bps benchmark downloaded
            = Inl EmptyReturnSeries \<longleftrightarrow> index prices = []"
    unfolding run_backtest_safe_result [OF assms(2,3) c] by simp
  have ok: "panel_ok prices ticker1 ticker2"
    using assms(1) by (simp add: well_formed_def)
  show ?thesis
    using first e flat_pipeline [OF ok, of window entry_threshold exit_threshold tc_bps benchmark downloaded]
    by blast
qed

theorem empty_return_series_only_without_rows_witness:
  "well_formed \<lparr>index = [0, 1, 2], columns = [''A'' \<mapsto> [1, 1, 4], ''B'' \<mapsto> [1, 1, 1]]\<rparr>
     \<lparr>pos1 = [Some 0, Some (- 0.5), Some (- 0.5)], pos2 = [Some 0, Some 0.5, Some 0.5]\<rparr> ''A'' ''B''
   \<and> columns \<lparr>index = [0, 1, 2], columns = [''A'' \<mapsto> [1, 1, 4], ''B'' \<mapsto> [1, 1, 1]]\<rparr> ''A''
       = Some [1, 1, 4]
   \<and> columns \<lparr>index = [0, 1, 2], columns = [''A'' \<mapsto> [1, 1, 4], ''B'' \<mapsto> [1, 1, 1]]\<rparr> ''B''
       = Some [1, 1, 1]
   \<and> index \<lparr>index = [0, 1, 2], columns = [''A'' \<mapsto> [1, 1, 4], ''B'' \<mapsto> [1::real, 1, 1]]\<rparr> \<noteq> []
   \<and> length (index \<lparr>index = [0, 1, 2], columns = [''A'' \<mapsto> [1, 1, 4], ''B'' \<mapsto> [1::real, 1, 1]]\<rparr>) < 5
   \<and> run_backtest_safe
         \<lparr>index = [0, 1, 2], columns = [''A'' \<mapsto> [1, 1, 4], ''B'' \<mapsto> [1, 1, 1]]\<rparr>
         \<lparr>pos1 = [Some 0, Some (- 0.5), Some (- 0.5)], pos2 = [Some 0, Some 0.5, Some 0.5]\<rparr>
         ''A'' ''B'' 10 ''SPY'' None \<noteq> Inl EmptyReturnSeries
   \<and> (\<exists>zscore signals r.
         calculate_zscore_safe
           \<lparr>index = [0, 1, 2], columns = [''A'' \<mapsto> [1, 1, 4], ''B'' \<mapsto> [1, 1, 1]]\<rparr>
           ''A'' ''B'' 5 = Inr zscore
         \<and> length zscore = 3
         \<and> generate_signals_safe zscore 1.5 0.5 = Inr signals
         \<and> run_backtest_safe
              \<lparr>index = [0, 1, 2], columns = [''A'' \<mapsto> [1, 1, 4], ''B'' \<mapsto> [1, 1, 1]]\<rparr>
              (make_positions signals) ''A'' ''B'' 10 ''SPY'' None = Inr r
         \<and> returns_out r = [Some 0, Some 0, Some 0])"
proof -
  let ?P = "\<lparr>index = [0, 1, 2], columns = [''A'' \<mapsto> [1, 1, 4], ''B'' \<mapsto> [1::real, 1, 1]]\<rparr>"
  let ?W = "\<lparr>pos1 = [Some 0, Some (- 0.5), Some (- 0.5)], pos2 = [Some 0, Some 0.5, Some (0.5::real)]\<rparr>"
  have wf: "well_formed ?P ?W ''A'' ''B''"
    by (simp add: well_formed_def panel_ok_def)
  have c1: "columns ?P ''A'' = Some [1, 1, 4]" and c2: "columns ?P ''B'' = Some [1, 1, 1]"
    by simp_all
  have ne: "index ?P \<noteq> []" and short: "length (index ?P) < 5" by simp_all
  note t = empty_return_series_only_without_rows
             [OF wf c1 c2, where tc_bps = 10 and benchmark = "''SPY''" and downloaded = None
                and window = 5 and entry_threshold = "1.5" and exit_threshold = "0.5"]
  from t ne have a: "run_backtest_safe ?P ?W ''A'' ''B'' 10 ''SPY'' None \<noteq> Inl EmptyReturnSeries"
    by blast
  from t ne short have b: "\<exists>zscore signals r.
         calculate_zscore_safe ?P ''A'' ''B'' 5 = Inr zscore
         \<and> length zscore = 3
         \<and> generate_signals_safe zscore 1.5 0.5 = Inr signals
         \<and> run_backtest_safe ?P (make_positions signals) ''A'' ''B'' 10 ''SPY'' None = Inr r
         \<and> returns_out r = [Some 0, Some 0, Some 0]"
    by (simp only: ne short simp_thms) (auto simp: numeral_3_eq_3)
  from wf c1 c2 ne short a b show ?thesis by blast
qed

text \<open>
  Claim C5 as stated fails on a panel of three rows with a rolling window of five: every
  z-score is missing and every signal is 0, and the backtest returns a result, with the
  net returns 0, 0, 0, instead of the empty-return-series error.
\<close>

theorem window_longer_than_sample_gives_a_result:
  "calculate_zscore_safe
     \<lparr>index = [0, 1, 2], columns = [''A'' \<mapsto> [1, 1, 4], ''B'' \<mapsto> [1, 1, 1]]\<rparr>
     ''A'' ''B'' 5 = Inr [None, None, None]
   \<and> generate_signals_safe [None, None, None] 1.5 0.5 = Inr [0, 0, 0]
   \<and> (\<exists>r. run_backtest_safe
          \<lparr>index = [0, 1, 2], columns = [''A'' \<mapsto> [1, 1, 4], ''B'' \<mapsto> [1, 1, 1]]\<rparr>
          (make_positions [0, 0, 0]) ''A'' ''B'' 10 ''SPY'' None = Inr r
        \<and> returns_out r = [Some 0, Some 0, Some 0])
   \<and> run_backtest_safe
          \<lparr>index = [0, 1, 2], columns = [''A'' \<mapsto> [1, 1, 4], ''B'' \<mapsto> [1, 1, 1]]\<rparr>
          (make_positions [0, 0, 0]) ''A'' ''B'' 10 ''SPY'' None \<noteq> Inl EmptyReturnSeries"
proof -
  let ?P = "\<lparr>index = [0, 1, 2], columns = [''A'' \<mapsto> [1, 1, 4], ''B'' \<mapsto> [1::real, 1, 1]]\<rparr>"
  have z: "calculate_zscore_safe ?P ''A'' ''B'' 5 = Inr [None, None, None]"
    by (simp add: calculate_zscore_safe_def rolling_mean_def rolling_std_def window_at_def
          upt_rec Let_def)
  have g: "generate_signals_safe [None, None, None] 1.5 0.5 = Inr [0, 0, 0]"
    by (simp add: generate_signals_safe_def)
  have r: "\<exists>r. run_backtest_safe ?P (make_positions [0, 0, 0]) ''A'' ''B'' 10 ''SPY'' None = Inr r
        \<and> returns_out r = [Some 0, Some 0, Some 0]"
    by (simp add: run_backtest_safe_result [where ?col1.0 = "[1, 1, 4]" and ?col2.0 = "[1, 1, 1]"]
          make_positions_def series_evals)
  then have n: "run_backtest_safe ?P (make_positions [0, 0, 0]) ''A'' ''B'' 10 ''SPY'' None
                  \<noteq> Inl EmptyReturnSeries"
    by auto
  from z g r n show ?thesis by blast
qed

section \<open>Beta and correlation\<close>

lemma series_var_nonneg: "0 \<le> series_var xs"
proof -
  have "0 \<le> sum_list (map2 (\<lambda>x y. (x - m) * (y - m)) xs xs)" for m :: real
    by (induction xs) simp_all
  then show ?thesis
    by (simp add: series_var_def series_cov_def)
qed

lemma market_beta_cases:
  "market_beta returns_clean None = (0, Some 0)"
  "length (common_dates returns_clean bench) \<le> 20 \<Longrightarrow>
     market_beta returns_clean (Some bench) = (0, Some 0)"
  "20 < length (common_dates returns_clean bench) \<Longrightarrow>
     market_beta returns_clean (Some bench) =
       (if series_var (loc bench (common_dates returns_clean bench)) = 0 then 0
        else series_cov (loc returns_clean (common_dates returns_clean bench))
                        (loc bench (common_dates returns_clean bench))
             / series_var (loc bench (common_dates returns_clean bench)),
        series_corr (loc returns_clean (common_dates returns_clean bench))
                    (loc bench (common_dates returns_clean bench)))"
  using series_var_nonneg [of "loc bench (common_dates returns_clean bench)"]
  by (auto simp: market_beta_def Let_def)

text \<open>
  Claim C4, as the code has it. On a non-empty panel \<^verbatim>\<open>run_backtest_safe\<close> returns a
  result. When there are no benchmark returns, or the returns of the strategy and of the
  benchmark share at most 20 dates, beta is 0 and the correlation is 0. When they share
  more than 20 dates, beta is the covariance of the two aligned series divided by the
  variance of the benchmark, or 0 when that variance is 0, and the correlation is the
  Pearson correlation of the aligned series.
\<close>

theorem beta_needs_more_than_20_dates:
  assumes "well_formed prices positions ticker1 ticker2" and "index prices \<noteq> []"
  shows "\<exists>r. run_backtest_safe prices positions ticker1 ticker2 tc_bps benchmark downloaded = Inr r \<and>
          (case benchmark_returns prices benchmark downloaded of
             None \<Rightarrow> beta_out r = 0 \<and> correlation_out r = Some 0
           | Some bench \<Rightarrow>
               (let returns_clean = dropna_at (index prices) (returns_out r);
                    common = common_dates returns_clean bench;
                    returns_aligned = loc returns_clean common;
                    benchmark_aligned = loc bench common
                in if length common \<le> 20
                   then beta_out r = 0 \<and> correlation_out r = Some 0
                   else beta_out r =
                          (if series_var benchmark_aligned = 0 then 0
                           else series_cov returns_aligned benchmark_aligned
                                / series_var benchmark_aligned) \<and>
                        correlation_out r = series_corr returns_aligned benchmark_aligned))"
proof -
  from assms(1) obtain col1 col2 where c:
    "columns prices ticker1 = Some col1" "columns prices ticker2 = Some col2"
    "length col1 = length (index prices)" "length col2 = length (index prices)"
    "length (pos1 positions) = length (index prices)"
    "length (pos2 positions) = length (index prices)"
    by (rule well_formedD)
  let ?clean = "dropna_at (index prices) (net_returns col1 col2 positions tc_bps)"
  show ?thesis
  proof (cases "benchmark_returns prices benchmark downloaded")
    case None
    then show ?thesis
      unfolding run_backtest_safe_result [OF c] using assms(2)
      by (simp add: market_beta_cases(1))
  next
    case (Some bench)
    show ?thesis
    proof (cases "length (common_dates ?clean bench) \<le> 20")
      case True
      then show ?thesis
        unfolding run_backtest_safe_result [OF c] using assms(2) Some
        by (simp add: market_beta_cases(2) Let_def)
    next
      case False
      then have "20 < length (common_dates ?clean bench)" by simp
      from market_beta_cases(3) [OF this] False show ?thesis
        unfolding run_backtest_safe_result [OF c] using assms(2) Some
        by (simp add: Let_def)
    qed
  qed
qed

theorem beta_needs_more_than_20_dates_witness:
  "well_formed
     \<lparr>index = [0, 1, 2, 3, 4, 5, 6, 7, 8, 9, 10, 11, 12, 13, 14, 15, 16, 17, 18, 19, 20, 21],
        columns = [''A'' \<mapsto> [1, 2, 1, 2, 1, 2, 1, 2, 1, 2, 1, 2, 1, 2, 1, 2, 1, 2, 1, 2, 1, 2],
                   ''B'' \<mapsto> [1, 1, 1, 1, 1, 1, 1, 1, 1, 1, 1, 1, 1, 1, 1, 1, 1, 1, 1, 1, 1, 1]]\<rparr>
     \<lparr>pos1 = [Some 0.5, Some 0.5, Some 0.5, Some 0.5, Some 0.5, Some 0.5, Some 0.5, Some 0.5, Some 0.5, Some 0.5, Some 0.5, Some 0.5, Some 0.5, Some 0.5, Some 0.5, Some 0.5, Some 0.5, Some 0.5, Some 0.5, Some 0.5, Some 0.5, Some 0.5],
        pos2 = [Some (- 0.5), Some (- 0.5), Some (- 0.5), Some (- 0.5), Some (- 0.5), Some (- 0.5), Some (- 0.5), Some (- 0.5), Some (- 0.5), Some (- 0.5), Some (- 0.5), Some (- 0.5), Some (- 0.5), Some (- 0.5), Some (- 0.5), Some (- 0.5), Some (- 0.5), Some (- 0.5), Some (- 0.5), Some (- 0.5), Some (- 0.5), Some (- 0.5)]\<rparr> ''A'' ''B''
   \<and> index
     \<lparr>index = [0, 1, 2, 3, 4, 5, 6, 7, 8, 9, 10, 11, 12, 13, 14, 15, 16, 17, 18, 19, 20, 21],
        columns = [''A'' \<mapsto> [1, 2, 1, 2, 1, 2, 1, 2, 1, 2, 1, 2, 1, 2, 1, 2, 1, 2, 1, 2, 1, 2],
                   ''B'' \<mapsto> [1, 1, 1, 1, 1, 1, 1, 1, 1, 1, 1, 1, 1, 1, 1, 1, 1, 1, 1, 1, 1, 1]]\<rparr> \<noteq> []
   \<and> (\<exists>r. run_backtest_safe
       \<lparr>index = [0, 1, 2, 3, 4, 5, 6, 7, 8, 9, 10, 11, 12, 13, 14, 15, 16, 17, 18, 19, 20, 21],
        columns = [''A'' \<mapsto> [1, 2, 1, 2, 1, 2, 1, 2, 1, 2, 1, 2, 1, 2, 1, 2, 1, 2, 1, 2, 1, 2],
                   ''B'' \<mapsto> [1, 1, 1, 1, 1, 1, 1, 1, 1, 1, 1, 1, 1, 1, 1, 1, 1, 1, 1, 1, 1, 1]]\<rparr>
       \<lparr>pos1 = [Some 0.5, Some 0.5, Some 0.5, Some 0.5, Some 0.5, Some 0.5, Some 0.5, Some 0.5, Some 0.5, Some 0.5, Some 0.5, Some 0.5, Some 0.5, Some 0.5, Some 0.5, Some 0.5, Some 0.5, Some 0.5, Some 0.5, Some 0.5, Some 0.5, Some 0.5],
        pos2 = [Some (- 0.5), Some (- 0.5), Some (- 0.5), Some (- 0.5), Some (- 0.5), Some (- 0.5), Some (- 0.5), Some (- 0.5), Some (- 0.5), Some (- 0.5), Some (- 0.5), Some (- 0.5), Some (- 0.5), Some (- 0.5), Some (- 0.5), Some (- 0.5), Some (- 0.5), Some (- 0.5), Some (- 0.5), Some (- 0.5), Some (- 0.5), Some (- 0.5)]\<rparr>
       ''A'' ''B'' 10 ''A'' None = Inr r
      \<and> trading_days_out r = 22 \<and> beta_out r = 1 / 2)"
proof -
  let ?A = "[1, 2, 1, 2, 1, 2, 1, 2, 1, 2, 1, 2, 1, 2, 1, 2, 1, 2, 1, 2, 1, 2] :: real list"
  let ?B = "[1, 1, 1, 1, 1, 1, 1, 1, 1, 1, 1, 1, 1, 1, 1, 1, 1, 1, 1, 1, 1, 1] :: real list"
  let ?I = "[0, 1, 2, 3, 4, 5, 6, 7, 8, 9, 10, 11, 12, 13, 14, 15, 16, 17, 18, 19, 20, 21] :: nat list"
  let ?P = "\<lparr>index = ?I, columns = [''A'' \<mapsto> ?A, ''B'' \<mapsto> ?B]\<rparr>"
  let ?W = "\<lparr>pos1 = [Some 0.5, Some 0.5, Some 0.5, Some 0.5, Some 0.5, Some 0.5, Some 0.5, Some 0.5, Some 0.5, Some 0.5, Some 0.5, Some 0.5, Some 0.5, Some 0.5, Some 0.5, Some 0.5, Some 0.5, Some 0.5, Some 0.5, Some 0.5, Some 0.5, Some 0.5],
            pos2 = [Some (- 0.5), Some (- 0.5), Some (- 0.5), Some (- 0.5), Some (- 0.5), Some (- 0.5), Some (- 0.5), Some (- 0.5), Some (- 0.5), Some (- 0.5), Some (- 0.5), Some (- 0.5), Some (- 0.5), Some (- 0.5), Some (- 0.5), Some (- 0.5), Some (- 0.5), Some (- 0.5), Some (- 0.5), Some (- 0.5), Some (- 0.5), Some (- 0.5)]\<rparr>"
  let ?bench = "[(1, 1), (2, - (1 / 2)), (3, 1), (4, - (1 / 2)), (5, 1), (6, - (1 / 2)), (7, 1), (8, - (1 / 2)), (9, 1), (10, - (1 / 2)), (11, 1), (12, - (1 / 2)), (13, 1), (14, - (1 / 2)), (15, 1), (16, - (1 / 2)), (17, 1), (18, - (1 / 2)), (19, 1), (20, - (1 / 2)), (21, 1)] :: labelled"
  let ?dates = "[1, 2, 3, 4, 5, 6, 7, 8, 9, 10, 11, 12, 13, 14, 15, 16, 17, 18, 19, 20, 21] :: nat list"
  have wf: "well_formed ?P ?W ''A'' ''B''"
    by (simp add: well_formed_def panel_ok_def)
  have ne: "index ?P \<noteq> []" by simp
  have net: "net_returns ?A ?B ?W 10 =
      [Some 0, Some (1 / 2), Some (- (1 / 4)), Some (1 / 2), Some (- (1 / 4)), Some (1 / 2), Some (- (1 / 4)), Some (1 / 2), Some (- (1 / 4)), Some (1 / 2), Some (- (1 / 4)), Some (1 / 2), Some (- (1 / 4)), Some (1 / 2), Some (- (1 / 4)), Some (1 / 2), Some (- (1 / 4)), Some (1 / 2), Some (- (1 / 4)), Some (1 / 2), Some (- (1 / 4)), Some (1 / 2)]"
    by (simp add: series_evals)
  have bench: "benchmark_returns ?P ''A'' None = Some ?bench"
    by (simp add: benchmark_returns_def pct_change_def shift1_def)
  have common: "common_dates (dropna_at ?I (net_returns ?A ?B ?W 10)) ?bench = ?dates"
    unfolding net by (simp add: common_dates_def)
  have aligned: "loc ?bench ?dates = map snd ?bench"
    "loc (dropna_at ?I (net_returns ?A ?B ?W 10)) ?dates
       = [1 / 2, - (1 / 4), 1 / 2, - (1 / 4), 1 / 2, - (1 / 4), 1 / 2, - (1 / 4), 1 / 2, - (1 / 4), 1 / 2, - (1 / 4), 1 / 2, - (1 / 4), 1 / 2, - (1 / 4), 1 / 2, - (1 / 4), 1 / 2, - (1 / 4), 1 / 2]"
    unfolding net by (simp_all add: loc_def)
  have var: "series_var (map snd ?bench) = 33 / 56"
    by (simp add: series_var_def series_cov_def series_mean_def)
  have cov: "series_cov [1 / 2, - (1 / 4), 1 / 2, - (1 / 4), 1 / 2, - (1 / 4), 1 / 2, - (1 / 4), 1 / 2, - (1 / 4), 1 / 2, - (1 / 4), 1 / 2, - (1 / 4), 1 / 2, - (1 / 4), 1 / 2, - (1 / 4), 1 / 2, - (1 / 4), 1 / 2]
               (map snd ?bench) = 33 / 112"
    by (simp add: series_cov_def series_mean_def)
  from beta_needs_more_than_20_dates [OF wf ne, of 10 "''A''" None]
  obtain r where run: "run_backtest_safe ?P ?W ''A'' ''B'' 10 ''A'' None = Inr r"
    and b: "case benchmark_returns ?P ''A'' None of
             None \<Rightarrow> beta_out r = 0 \<and> correlation_out r = Some 0
           | Some bench \<Rightarrow>
               (let returns_clean = dropna_at (index ?P) (returns_out r);
                    common = common_dates returns_clean bench;
                    returns_aligned = loc returns_clean common;
                    benchmark_aligned = loc bench common
                in if length common \<le> 20
                   then beta_out r = 0 \<and> correlation_out r = Some 0
                   else beta_out r =
                          (if series_var benchmark_aligned = 0 then 0
                           else series_cov returns_aligned benchmark_aligned
                                / series_var benchmark_aligned) \<and>
                        correlation_out r = series_corr returns_aligned benchmark_aligned)"
    by blast
  have cols: "columns ?P ''A'' = Some ?A" "columns ?P ''B'' = Some ?B"
    "length ?A = length (index ?P)" "length ?B = length (index ?P)"
    "length (pos1 ?W) = length (index ?P)" "length (pos2 ?W) = length (index ?P)"
    by simp_all
  have ro: "returns_out r = net_returns ?A ?B ?W 10" and td: "trading_days_out r = 22"
    using run unfolding run_backtest_safe_result [OF cols] by (auto split: if_splits)
  have "beta_out r = 1 / 2"
    using b
    apply (simp only: bench option.case Let_def ro panel.select_convs common aligned var cov)
    apply simp
    done
  with wf ne run td show ?thesis by blast
qed

text \<open>
  Claim C4 as stated fails at exactly 20 common dates. The panel has 21 rows, the
  benchmark is its column \<^verbatim>\<open>A\<close>, whose price alternates between 1 and 2, and the weights
  are constant, one half on \<^verbatim>\<open>A\<close>. The strategy and the benchmark share the 20 dates after
  the first row; on them the variance of the benchmark is 45/76 and the covariance
  divided by it is 1/2, but beta and correlation are left at 0.
\<close>

theorem twenty_common_dates_give_no_beta:
  "\<exists>r bench.
     run_backtest_safe
       \<lparr>index = [0, 1, 2, 3, 4, 5, 6, 7, 8, 9, 10, 11, 12, 13, 14, 15, 16, 17, 18, 19, 20],
        columns = [''A'' \<mapsto> [1, 2, 1, 2, 1, 2, 1, 2, 1, 2, 1, 2, 1, 2, 1, 2, 1, 2, 1, 2, 1],
                   ''B'' \<mapsto> [1, 1, 1, 1, 1, 1, 1, 1, 1, 1, 1, 1, 1, 1, 1, 1, 1, 1, 1, 1, 1]]\<rparr>
       \<lparr>pos1 = [Some 0.5, Some 0.5, Some 0.5, Some 0.5, Some 0.5, Some 0.5, Some 0.5, Some 0.5, Some 0.5, Some 0.5, Some 0.5, Some 0.5, Some 0.5, Some 0.5, Some 0.5, Some 0.5, Some 0.5, Some 0.5, Some 0.5, Some 0.5, Some 0.5],
        pos2 = [Some (- 0.5), Some (- 0.5), Some (- 0.5), Some (- 0.5), Some (- 0.5), Some (- 0.5), Some (- 0.5), Some (- 0.5), Some (- 0.5), Some (- 0.5), Some (- 0.5), Some (- 0.5), Some (- 0.5), Some (- 0.5), Some (- 0.5), Some (- 0.5), Some (- 0.5), Some (- 0.5), Some (- 0.5), Some (- 0.5), Some (- 0.5)]\<rparr>
       ''A'' ''B'' 10 ''A'' None = Inr r
     \<and> benchmark_returns
       \<lparr>index = [0, 1, 2, 3, 4, 5, 6, 7, 8, 9, 10, 11, 12, 13, 14, 15, 16, 17, 18, 19, 20],
        columns = [''A'' \<mapsto> [1, 2, 1, 2, 1, 2, 1, 2, 1, 2, 1, 2, 1, 2, 1, 2, 1, 2, 1, 2, 1],
                   ''B'' \<mapsto> [1, 1, 1, 1, 1, 1, 1, 1, 1, 1, 1, 1, 1, 1, 1, 1, 1, 1, 1, 1, 1]]\<rparr> ''A'' None = Some bench
     \<and> (let returns_clean = dropna_at [0, 1, 2, 3, 4, 5, 6, 7, 8, 9, 10, 11, 12, 13, 14, 15, 16, 17, 18, 19, 20] (returns_out r);
             common = common_dates returns_clean bench;
             returns_aligned = loc returns_clean common;
             benchmark_aligned = loc bench common
         in length common = 20
            \<and> series_var benchmark_aligned = 45 / 76
            \<and> series_cov returns_aligned benchmark_aligned / series_var benchmark_aligned = 1 / 2
            \<and> beta_out r = 0 \<and> correlation_out r = Some 0)"
proof -
  let ?A = "[1, 2, 1, 2, 1, 2, 1, 2, 1, 2, 1, 2, 1, 2, 1, 2, 1, 2, 1, 2, 1] :: real list"
  let ?B = "[1, 1, 1, 1, 1, 1, 1, 1, 1, 1, 1, 1, 1, 1, 1, 1, 1, 1, 1, 1, 1] :: real list"
  let ?I = "[0, 1, 2, 3, 4, 5, 6, 7, 8, 9, 10, 11, 12, 13, 14, 15, 16, 17, 18, 19, 20] :: nat list"
  let ?P = "\<lparr>index = ?I, columns = [''A'' \<mapsto> ?A, ''B'' \<mapsto> ?B]\<rparr>"
  let ?W = "\<lparr>pos1 = [Some 0.5, Some 0.5, Some 0.5, Some 0.5, Some 0.5, Some 0.5, Some 0.5, Some 0.5, Some 0.5, Some 0.5, Some 0.5, Some 0.5, Some 0.5, Some 0.5, Some 0.5, Some 0.5, Some 0.5, Some 0.5, Some 0.5, Some 0.5, Some 0.5],
            pos2 = [Some (- 0.5), Some (- 0.5), Some (- 0.5), Some (- 0.5), Some (- 0.5), Some (- 0.5), Some (- 0.5), Some (- 0.5), Some (- 0.5), Some (- 0.5), Some (- 0.5), Some (- 0.5), Some (- 0.5), Some (- 0.5), Some (- 0.5), Some (- 0.5), Some (- 0.5), Some (- 0.5), Some (- 0.5), Some (- 0.5), Some (- 0.5)]\<rparr>"
  let ?bench = "[(1, 1), (2, - (1 / 2)), (3, 1), (4, - (1 / 2)), (5, 1), (6, - (1 / 2)), (7, 1), (8, - (1 / 2)), (9, 1), (10, - (1 / 2)), (11, 1), (12, - (1 / 2)), (13, 1), (14, - (1 / 2)), (15, 1), (16, - (1 / 2)), (17, 1), (18, - (1 / 2)), (19, 1), (20, - (1 / 2))] :: labelled"
  have net: "net_returns ?A ?B ?W 10 =
      [Some 0, Some (1 / 2), Some (- (1 / 4)), Some (1 / 2), Some (- (1 / 4)), Some (1 / 2), Some (- (1 / 4)), Some (1 / 2), Some (- (1 / 4)), Some (1 / 2), Some (- (1 / 4)), Some (1 / 2), Some (- (1 / 4)), Some (1 / 2), Some (- (1 / 4)), Some (1 / 2), Some (- (1 / 4)), Some (1 / 2), Some (- (1 / 4)), Some (1 / 2), Some (- (1 / 4))]"
    by (simp add: series_evals)
  have bench: "benchmark_returns ?P ''A'' None = Some ?bench"
    by (simp add: benchmark_returns_def pct_change_def shift1_def)
  have common: "common_dates (dropna_at ?I (net_returns ?A ?B ?W 10)) ?bench =
      [1, 2, 3, 4, 5, 6, 7, 8, 9, 10, 11, 12, 13, 14, 15, 16, 17, 18, 19, 20]"
    unfolding net by (simp add: common_dates_def)
  have beta: "market_beta (dropna_at ?I (net_returns ?A ?B ?W 10)) (Some ?bench) = (0, Some 0)"
    by (rule market_beta_cases(2)) (simp only: common, simp)
  have aligned: "loc ?bench [1, 2, 3, 4, 5, 6, 7, 8, 9, 10, 11, 12, 13, 14, 15, 16, 17, 18, 19, 20] = map snd ?bench"
    "loc (dropna_at ?I (net_returns ?A ?B ?W 10)) [1, 2, 3, 4, 5, 6, 7, 8, 9, 10, 11, 12, 13, 14, 15, 16, 17, 18, 19, 20]
       = [1 / 2, - (1 / 4), 1 / 2, - (1 / 4), 1 / 2, - (1 / 4), 1 / 2, - (1 / 4), 1 / 2, - (1 / 4), 1 / 2, - (1 / 4), 1 / 2, - (1 / 4), 1 / 2, - (1 / 4), 1 / 2, - (1 / 4), 1 / 2, - (1 / 4)]"
    unfolding net by (simp_all add: loc_def)
  have var: "series_var (map snd ?bench) = 45 / 76"
    by (simp add: series_var_def series_cov_def series_mean_def)
  have cov: "series_cov [1 / 2, - (1 / 4), 1 / 2, - (1 / 4), 1 / 2, - (1 / 4), 1 / 2, - (1 / 4), 1 / 2, - (1 / 4), 1 / 2, - (1 / 4), 1 / 2, - (1 / 4), 1 / 2, - (1 / 4), 1 / 2, - (1 / 4), 1 / 2, - (1 / 4)]
               (map snd ?bench) = 45 / 152"
    by (simp add: series_cov_def series_mean_def)
  have run: "run_backtest_safe ?P ?W ''A'' ''B'' 10 ''A'' None =
      Inr \<lparr>returns_out = net_returns ?A ?B ?W 10,
           equity_curve_out = equity_curve ?A ?B ?W 10,
           drawdown_out = drawdown (equity_curve ?A ?B ?W 10),
           gross_exposure_out = gross_exposure ?W,
           net_exposure_out = net_exposure ?W,
           turnover_out = turnover ?W,
           trading_days_out = 21,
           beta_out = 0,
           correlation_out = Some 0\<rparr>"
  proof -
    have "columns ?P ''A'' = Some ?A" "columns ?P ''B'' = Some ?B"
      "length ?A = length (index ?P)" "length ?B = length (index ?P)"
      "length (pos1 ?W) = length (index ?P)" "length (pos2 ?W) = length (index ?P)"
      by simp_all
    from run_backtest_safe_result [OF this, of 10 "''A''" None]
    show ?thesis
      by (simp only: bench beta panel.select_convs fst_conv snd_conv list.distinct if_False
            list.size) simp
  qed
  show ?thesis
    apply (rule exI, rule exI, intro conjI)
      apply (rule run)
     apply (rule bench)
    apply (simp only: Let_def backtest_result.select_convs common aligned var cov)
    apply simp
    done
qed

end
